theory Spec2Isabelle
  imports Complex_Main
begin

section \<open>The synthetic transaction generator of InsightX (utils/data_generator.py)\<close>

text \<open>
  The development embeds \<^verbatim>\<open>MockDataGenerator\<close>: the per-field producers, the
  record builder \<^verbatim>\<open>generate_single_transaction\<close>, the assembler
  \<^verbatim>\<open>generate_data\<close> and the validator \<^verbatim>\<open>validate_data\<close>.

  Conventions of the embedding.
  \<^item> Python floats are idealised as rationals (\<open>rat\<close>): every bound, rate and weight of
    the source is a decimal literal, and no statement below depends on rounding error.
  \<^item> A naive \<^verbatim>\<open>datetime\<close> is the number of microseconds since 0001-01-01 00:00:00,
    which is a Monday (\<^verbatim>\<open>date(1,1,1).weekday() == 0\<close>). The calendar range of
    \<^verbatim>\<open>datetime\<close> (years 1 to 9999) is not represented.
  \<^item> Every value the program reads from outside is a field of \<open>sources\<close>: the stream of
    Python's \<^verbatim>\<open>random\<close> module, the stream of \<^verbatim>\<open>numpy.random\<close>, the
    identifiers \<^verbatim>\<open>uuid.uuid4()\<close> returns and the readings of
    \<^verbatim>\<open>datetime.now()\<close>. A \<open>cursor\<close> counts how many values of each were consumed;
    the producers pass it along as state.
  \<^item> A raised exception is \<open>Inl\<close> of a \<open>py_error\<close>.
\<close>

subsection \<open>Exceptions, sources of input, state passing\<close>

datatype py_error = KeyError string | IndexError | ValueError

type_synonym datetime = int

record sources =
  py_stream :: "nat \<Rightarrow> nat"
  np_stream :: "nat \<Rightarrow> rat"
  uuid_stream :: "nat \<Rightarrow> string"
  clock :: "nat \<Rightarrow> datetime"

record cursor =
  py_pos :: nat
  np_pos :: nat
  uuid_pos :: nat
  clock_pos :: nat

type_synonym 'a action = "cursor \<Rightarrow> py_error + 'a \<times> cursor"

definition unit :: "'a \<Rightarrow> 'a action" where
  "unit v c = Inr (v, c)"

definition bind :: "'a action \<Rightarrow> ('a \<Rightarrow> 'b action) \<Rightarrow> 'b action" where
  "bind m f c = (case m c of Inl e \<Rightarrow> Inl e | Inr (v, c') \<Rightarrow> f v c')"

definition start :: cursor where
  "start = \<lparr>py_pos = 0, np_pos = 0, uuid_pos = 0, clock_pos = 0\<rparr>"

subsection \<open>The library calls the generator makes\<close>

text \<open>
  \<^verbatim>\<open>random.random()\<close> is a 53-bit integer divided by \<open>2^53\<close>; the raw stream element is
  reduced to 53 bits, so the result lies in \<open>[0, 1)\<close> for every stream.
\<close>

definition uniform :: "sources \<Rightarrow> nat \<Rightarrow> rat" where
  "uniform src k = of_nat (py_stream src k mod 2 ^ 53) / 2 ^ 53"

definition random_random :: "sources \<Rightarrow> rat action" where
  "random_random src c = Inr (uniform src (py_pos c), c\<lparr>py_pos := Suc (py_pos c)\<rparr>)"

text \<open>
  \<^verbatim>\<open>Random._randbelow(n)\<close> returns an integer of \<open>[0, n)\<close>. CPython draws it by rejection
  sampling on \<^verbatim>\<open>getrandbits\<close>; the model takes one stream element modulo \<open>n\<close>, which keeps
  the only property the generator relies on, the range.
\<close>

definition randbelow :: "sources \<Rightarrow> nat \<Rightarrow> nat action" where
  "randbelow src n c = Inr (py_stream src (py_pos c) mod n, c\<lparr>py_pos := Suc (py_pos c)\<rparr>)"

definition random_randint :: "sources \<Rightarrow> int \<Rightarrow> int \<Rightarrow> int action" where
  "random_randint src a b =
     (if b < a then (\<lambda>c. Inl ValueError)
      else bind (randbelow src (nat (b - a + 1))) (\<lambda>k. unit (a + int k)))"

definition random_choice :: "sources \<Rightarrow> 'a list \<Rightarrow> 'a action" where
  "random_choice src seq =
     (if seq = [] then (\<lambda>c. Inl IndexError)
      else bind (randbelow src (length seq)) (\<lambda>i. unit (seq ! i)))"

text \<open>\<^verbatim>\<open>bisect.bisect_right(a, x, lo, hi)\<close>, the loop of the standard library.\<close>

function bisect :: "rat list \<Rightarrow> rat \<Rightarrow> nat \<Rightarrow> nat \<Rightarrow> nat" where
  "bisect a x lo hi =
     (if lo < hi
      then (let mid = (lo + hi) div 2
            in if x < a ! mid then bisect a x lo mid else bisect a x (mid + 1) hi)
      else lo)"
  by pat_completeness auto
termination
  by (relation "measure (\<lambda>(a, x, lo, hi). hi - lo)") auto

declare bisect.simps [simp del]

text \<open>\<^verbatim>\<open>itertools.accumulate(weights)\<close>: the running sums.\<close>

fun accumulate_from :: "rat \<Rightarrow> rat list \<Rightarrow> rat list" where
  "accumulate_from s [] = []"
| "accumulate_from s (w # ws) = (s + w) # accumulate_from (s + w) ws"

definition accumulate :: "rat list \<Rightarrow> rat list" where
  "accumulate ws = accumulate_from 0 ws"

text \<open>
  \<^verbatim>\<open>random.choices(population, weights=weights, k=1)[0]\<close>: the length check, the total
  of the weights, one uniform draw scaled by the total, and a bisection whose upper
  bound is \<open>n - 1\<close>, so that the index is always one of the population.
\<close>

definition random_choices :: "sources \<Rightarrow> 'a list \<Rightarrow> rat list \<Rightarrow> 'a action" where
  "random_choices src population weights =
     (let n = length population; cum_weights = accumulate weights
      in if length cum_weights \<noteq> n then (\<lambda>c. Inl ValueError)
         else if cum_weights = [] then (\<lambda>c. Inl IndexError)
         else let total = last cum_weights
              in if total \<le> 0 then (\<lambda>c. Inl ValueError)
                 else bind (random_random src)
                        (\<lambda>u. unit (population ! bisect cum_weights (u * total) 0 (n - 1))))"

text \<open>
  \<^verbatim>\<open>numpy.random.lognormal(mean, sigma)\<close> returns \<open>exp (mean + sigma * z)\<close> for the next
  standard normal \<open>z\<close>. The generator always calls it with \<open>mean = ln m\<close> and \<open>sigma = 1\<close>,
  where the result is \<open>m * exp z\<close>; the stream \<open>np_stream\<close> holds the factors \<open>exp z\<close>.
\<close>

definition np_random_lognormal :: "sources \<Rightarrow> rat \<Rightarrow> rat action" where
  "np_random_lognormal src m c = Inr (m * np_stream src (np_pos c), c\<lparr>np_pos := Suc (np_pos c)\<rparr>)"

definition np_clip :: "rat \<Rightarrow> rat \<Rightarrow> rat \<Rightarrow> rat" where
  "np_clip x lo hi = min (max x lo) hi"

text \<open>
  \<^verbatim>\<open>round(amount, 2)\<close> on a numpy float: scale by 100, round half to even
  (\<^verbatim>\<open>rint\<close>), scale back.
\<close>

definition rint :: "rat \<Rightarrow> int" where
  "rint x =
     (let f = \<lfloor>x\<rfloor>; d = x - of_int f
      in if d < 1 / 2 then f else if 1 / 2 < d then f + 1 else if even f then f else f + 1)"

definition round2 :: "rat \<Rightarrow> rat" where
  "round2 x = of_int (rint (x * 100)) / 100"

text \<open>\<^verbatim>\<open>datetime.now()\<close>, \<^verbatim>\<open>timedelta\<close>, and the three readings of a timestamp.\<close>

definition datetime_now :: "sources \<Rightarrow> datetime action" where
  "datetime_now src c = Inr (clock src (clock_pos c), c\<lparr>clock_pos := Suc (clock_pos c)\<rparr>)"

definition timedelta_days :: "int \<Rightarrow> int" where
  "timedelta_days d = d * 86400000000"

definition timedelta_seconds :: "int \<Rightarrow> int" where
  "timedelta_seconds s = s * 1000000"

definition total_seconds :: "int \<Rightarrow> int" where
  "total_seconds td = td div 1000000"

definition hour :: "datetime \<Rightarrow> int" where
  "hour t = (t div 3600000000) mod 24"

definition weekday :: "datetime \<Rightarrow> int" where
  "weekday t = (t div 86400000000) mod 7"

definition day_names :: "string list" where
  "day_names = [''Monday'', ''Tuesday'', ''Wednesday'', ''Thursday'', ''Friday'',
                ''Saturday'', ''Sunday'']"

definition strftime_A :: "datetime \<Rightarrow> string" where
  "strftime_A t = day_names ! nat (weekday t)"

text \<open>\<^verbatim>\<open>str.upper()\<close> on ASCII text, and \<^verbatim>\<open>str(n)\<close> for a length.\<close>

definition upper_char :: "char \<Rightarrow> char" where
  "upper_char ch =
     (case map_of (zip ''abcdefghijklmnopqrstuvwxyz'' ''ABCDEFGHIJKLMNOPQRSTUVWXYZ'') ch of
        None \<Rightarrow> ch | Some u \<Rightarrow> u)"

definition upper :: "string \<Rightarrow> string" where
  "upper s = map upper_char s"

definition digit_char :: "nat \<Rightarrow> char" where
  "digit_char d = ''0123456789'' ! d"

fun str_nat :: "nat \<Rightarrow> string" where
  "str_nat n =
     (if n < 10 then [digit_char n]
      else str_nat (n div 10) @ [digit_char (n mod 10)])"

subsection \<open>Configuration constants of \<^verbatim>\<open>MockDataGenerator\<close>\<close>

definition TRANSACTION_TYPES :: "string list" where
  "TRANSACTION_TYPES = [''P2P'', ''P2M'', ''Bill Payment'', ''Recharge'']"

definition TRANSACTION_TYPE_WEIGHTS :: "rat list" where
  "TRANSACTION_TYPE_WEIGHTS = [35 / 100, 35 / 100, 20 / 100, 10 / 100]"

definition MERCHANT_CATEGORIES :: "string list" where
  "MERCHANT_CATEGORIES = [''Food'', ''Grocery'', ''Fuel'', ''Entertainment'', ''Utilities'']"

definition MERCHANT_CATEGORY_BY_TYPE :: "string \<rightharpoonup> string list" where
  "MERCHANT_CATEGORY_BY_TYPE =
     [''P2M'' \<mapsto> [''Food'', ''Grocery'', ''Fuel'', ''Entertainment''],
      ''Bill Payment'' \<mapsto> [''Utilities''],
      ''Recharge'' \<mapsto> [''Utilities'']]"

definition AGE_GROUPS :: "string list" where
  "AGE_GROUPS = [''18-25'', ''26-35'', ''36-45'', ''46-55'', ''56+'']"

definition AGE_GROUP_WEIGHTS :: "rat list" where
  "AGE_GROUP_WEIGHTS = [25 / 100, 35 / 100, 20 / 100, 12 / 100, 8 / 100]"

definition INDIAN_STATES :: "string list" where
  "INDIAN_STATES =
     [''Maharashtra'', ''Karnataka'', ''Tamil Nadu'', ''Delhi'', ''Gujarat'',
      ''Rajasthan'', ''Uttar Pradesh'', ''West Bengal'', ''Telangana'', ''Kerala'']"

definition STATE_WEIGHTS :: "rat list" where
  "STATE_WEIGHTS =
     [18 / 100, 15 / 100, 12 / 100, 12 / 100, 10 / 100, 8 / 100, 8 / 100, 7 / 100, 6 / 100,
      4 / 100]"

definition BANKS :: "string list" where
  "BANKS = [''SBI'', ''HDFC'', ''ICICI'', ''Axis'', ''Yes Bank'']"

definition BANK_WEIGHTS :: "rat list" where
  "BANK_WEIGHTS = [30 / 100, 25 / 100, 20 / 100, 15 / 100, 10 / 100]"

definition DEVICE_TYPES :: "string list" where
  "DEVICE_TYPES = [''Android'', ''iOS'', ''Web'']"

definition DEVICE_WEIGHTS :: "rat list" where
  "DEVICE_WEIGHTS = [60 / 100, 30 / 100, 10 / 100]"

definition NETWORK_TYPES :: "string list" where
  "NETWORK_TYPES = [''4G'', ''5G'', ''WiFi'']"

definition NETWORK_WEIGHTS :: "rat list" where
  "NETWORK_WEIGHTS = [50 / 100, 30 / 100, 20 / 100]"

definition AMOUNT_RANGES :: "string \<rightharpoonup> rat \<times> rat" where
  "AMOUNT_RANGES =
     [''Android'' \<mapsto> (10, 25000), ''iOS'' \<mapsto> (50, 45000), ''Web'' \<mapsto> (100, 75000)]"

definition BASE_FAILURE_RATE :: rat where
  "BASE_FAILURE_RATE = 5 / 100"

definition WEEKEND_BILLPAY_FAILURE_RATE :: rat where
  "WEEKEND_BILLPAY_FAILURE_RATE = 20 / 100"

definition BASE_FRAUD_RATE :: rat where
  "BASE_FRAUD_RATE = 2 / 100"

definition HIGH_VALUE_FRAUD_RATE :: rat where
  "HIGH_VALUE_FRAUD_RATE = 10 / 100"

definition HIGH_VALUE_THRESHOLD :: rat where
  "HIGH_VALUE_THRESHOLD = 50000"

subsection \<open>Construction: which inputs the seed fixes\<close>

text \<open>
  \<^verbatim>\<open>__init__\<close> seeds Python's \<^verbatim>\<open>random\<close> and \<^verbatim>\<open>numpy.random\<close> when a seed is given.
  The two pseudo-random generators are functions of the seed (\<open>platform\<close>: the same in
  every run). What a run of the process brings with it is a \<open>process\<close>: the state of
  the two generators when nobody seeds them, the operating system's entropy behind
  \<^verbatim>\<open>uuid.uuid4()\<close>, and the wall clock behind \<^verbatim>\<open>datetime.now()\<close>. Seeding
  touches neither of the last two.
\<close>

record platform =
  seeded_random :: "int \<Rightarrow> nat \<Rightarrow> nat"
  seeded_numpy :: "int \<Rightarrow> nat \<Rightarrow> rat"

record process =
  unseeded_random :: "nat \<Rightarrow> nat"
  unseeded_numpy :: "nat \<Rightarrow> rat"
  os_uuid4 :: "nat \<Rightarrow> string"
  wall_clock :: "nat \<Rightarrow> datetime"

definition MockDataGenerator :: "platform \<Rightarrow> process \<Rightarrow> int option \<Rightarrow> sources" where
  "MockDataGenerator pf run seed =
     (case seed of
        Some s \<Rightarrow>
          \<lparr>py_stream = seeded_random pf s, np_stream = seeded_numpy pf s,
           uuid_stream = os_uuid4 run, clock = wall_clock run\<rparr>
      | None \<Rightarrow>
          \<lparr>py_stream = unseeded_random run, np_stream = unseeded_numpy run,
           uuid_stream = os_uuid4 run, clock = wall_clock run\<rparr>)"

subsection \<open>Field producers\<close>

record transaction =
  transaction_id :: string
  timestamp :: datetime
  transaction_type :: string
  merchant_category :: "string option"
  amount_inr :: rat
  transaction_status :: string
  sender_age_group :: string
  receiver_age_group :: "string option"
  sender_state :: string
  sender_bank :: string
  receiver_bank :: string
  device_type :: string
  network_type :: string
  fraud_flag :: int
  hour_of_day :: int
  day_of_week :: string
  is_weekend :: int

definition generate_transaction_id :: "sources \<Rightarrow> string action" where
  "generate_transaction_id src c =
     Inr (''TXN'' @ upper (take 12 (uuid_stream src (uuid_pos c))),
          c\<lparr>uuid_pos := Suc (uuid_pos c)\<rparr>)"

definition generate_timestamp :: "sources \<Rightarrow> int \<Rightarrow> datetime action" where
  "generate_timestamp src days_back =
     bind (datetime_now src) (\<lambda>end_date.
       let start_date = end_date - timedelta_days days_back;
           time_delta = end_date - start_date
       in bind (random_randint src 0 (total_seconds time_delta)) (\<lambda>random_seconds.
            unit (start_date + timedelta_seconds random_seconds)))"

text \<open>
  The first half of \<^verbatim>\<open>_generate_amount\<close>: the device's range, then the adjustment by
  transaction type. The floor is assigned, the ceiling is narrowed with \<^verbatim>\<open>min\<close>.
\<close>

definition amount_bounds :: "string \<Rightarrow> string \<Rightarrow> rat \<times> rat" where
  "amount_bounds device ttype =
     (let (min_amt, max_amt) =
            (case AMOUNT_RANGES device of None \<Rightarrow> (10, 25000) | Some b \<Rightarrow> b)
      in if ttype = ''Recharge'' then (10, min max_amt 2000)
         else if ttype = ''Bill Payment'' then (100, min max_amt 50000)
         else if ttype = ''P2P'' then (min_amt, max_amt)
         else if ttype = ''P2M'' then (20, min max_amt 30000)
         else (min_amt, max_amt))"

definition generate_amount :: "sources \<Rightarrow> string \<Rightarrow> string \<Rightarrow> rat action" where
  "generate_amount src device ttype =
     (let (min_amt, max_amt) = amount_bounds device ttype
      in bind (np_random_lognormal src ((min_amt + max_amt) / 4)) (\<lambda>amount.
           unit (round2 (np_clip amount min_amt max_amt))))"

definition determine_failure_status :: "sources \<Rightarrow> string \<Rightarrow> bool \<Rightarrow> string action" where
  "determine_failure_status src ttype weekend =
     (let failure_rate =
            (if ttype = ''Bill Payment'' \<and> weekend
             then WEEKEND_BILLPAY_FAILURE_RATE else BASE_FAILURE_RATE)
      in bind (random_random src) (\<lambda>u.
           unit (if u < failure_rate then ''FAILED'' else ''SUCCESS'')))"

definition determine_fraud_flag :: "sources \<Rightarrow> rat \<Rightarrow> int action" where
  "determine_fraud_flag src amount =
     (let fraud_rate =
            (if amount > HIGH_VALUE_THRESHOLD then HIGH_VALUE_FRAUD_RATE else BASE_FRAUD_RATE)
      in bind (random_random src) (\<lambda>u. unit (if u < fraud_rate then 1 else 0)))"

definition weighted_choice :: "sources \<Rightarrow> 'a list \<Rightarrow> rat list \<Rightarrow> 'a action" where
  "weighted_choice src options weights = random_choices src options weights"

definition get_merchant_category :: "sources \<Rightarrow> string \<Rightarrow> string option action" where
  "get_merchant_category src ttype =
     (if ttype = ''P2P'' then unit None
      else (let categories =
                  (case MERCHANT_CATEGORY_BY_TYPE ttype of
                     None \<Rightarrow> MERCHANT_CATEGORIES | Some cs \<Rightarrow> cs)
            in bind (random_choice src categories) (\<lambda>m. unit (Some m))))"

definition get_receiver_age_group :: "sources \<Rightarrow> string \<Rightarrow> string option action" where
  "get_receiver_age_group src ttype =
     (if ttype = ''P2P''
      then bind (weighted_choice src AGE_GROUPS AGE_GROUP_WEIGHTS) (\<lambda>a. unit (Some a))
      else unit None)"

record derived_fields =
  derived_hour_of_day :: int
  derived_day_of_week :: string
  derived_is_weekend :: int

definition calculate_derived_fields :: "datetime \<Rightarrow> derived_fields" where
  "calculate_derived_fields ts =
     \<lparr>derived_hour_of_day = hour ts,
      derived_day_of_week = strftime_A ts,
      derived_is_weekend = (if weekday ts \<ge> 5 then 1 else 0)\<rparr>"

subsection \<open>One record\<close>

text \<open>
  The draws happen in the order of the source: timestamp, type and device first, the
  amount next, then the entries of the dictionary literal from top to bottom.
\<close>

definition generate_single_transaction :: "sources \<Rightarrow> transaction action" where
  "generate_single_transaction src =
     bind (generate_timestamp src 30) (\<lambda>ts.
     bind (weighted_choice src TRANSACTION_TYPES TRANSACTION_TYPE_WEIGHTS) (\<lambda>ttype.
     bind (weighted_choice src DEVICE_TYPES DEVICE_WEIGHTS) (\<lambda>device.
     let derived = calculate_derived_fields ts;
         weekend = (derived_is_weekend derived = 1)
     in
     bind (generate_amount src device ttype) (\<lambda>amount.
     bind (generate_transaction_id src) (\<lambda>tid.
     bind (get_merchant_category src ttype) (\<lambda>merchant.
     bind (determine_failure_status src ttype weekend) (\<lambda>status.
     bind (weighted_choice src AGE_GROUPS AGE_GROUP_WEIGHTS) (\<lambda>sender_age.
     bind (get_receiver_age_group src ttype) (\<lambda>receiver_age.
     bind (weighted_choice src INDIAN_STATES STATE_WEIGHTS) (\<lambda>state.
     bind (weighted_choice src BANKS BANK_WEIGHTS) (\<lambda>sbank.
     bind (weighted_choice src BANKS BANK_WEIGHTS) (\<lambda>rbank.
     bind (weighted_choice src NETWORK_TYPES NETWORK_WEIGHTS) (\<lambda>network.
     bind (determine_fraud_flag src amount) (\<lambda>fraud.
     unit \<lparr>transaction_id = tid,
           timestamp = ts,
           transaction_type = ttype,
           merchant_category = merchant,
           amount_inr = amount,
           transaction_status = status,
           sender_age_group = sender_age,
           receiver_age_group = receiver_age,
           sender_state = state,
           sender_bank = sbank,
           receiver_bank = rbank,
           device_type = device,
           network_type = network,
           fraud_flag = fraud,
           hour_of_day = derived_hour_of_day derived,
           day_of_week = derived_day_of_week derived,
           is_weekend = derived_is_weekend derived\<rparr>))))))))))))))"

subsection \<open>The table\<close>

text \<open>
  A \<^verbatim>\<open>DataFrame\<close> is its column labels and its rows. Built from a list of
  dictionaries it takes its columns from their keys, so the frame of an empty list has
  no column at all. \<^verbatim>\<open>sort_values('timestamp')\<close> raises \<^verbatim>\<open>KeyError\<close> when the frame
  has no such column. pandas does not promise an order among equal timestamps; the
  model sorts stably, and no statement below depends on that order.
\<close>

record dataframe =
  columns :: "string list"
  rows :: "transaction list"

definition transaction_keys :: "string list" where
  "transaction_keys =
     [''transaction_id'', ''timestamp'', ''transaction_type'', ''merchant_category'',
      ''amount_inr'', ''transaction_status'', ''sender_age_group'', ''receiver_age_group'',
      ''sender_state'', ''sender_bank'', ''receiver_bank'', ''device_type'', ''network_type'',
      ''fraud_flag'', ''hour_of_day'', ''day_of_week'', ''is_weekend'']"

definition DataFrame :: "transaction list \<Rightarrow> dataframe" where
  "DataFrame records =
     \<lparr>columns = (if records = [] then [] else transaction_keys), rows = records\<rparr>"

definition sort_values_timestamp :: "dataframe \<Rightarrow> py_error + dataframe" where
  "sort_values_timestamp df =
     (if ''timestamp'' \<in> set (columns df)
      then Inr (df\<lparr>rows := sort_key timestamp (rows df)\<rparr>)
      else Inl (KeyError ''timestamp''))"

fun generate_transactions :: "sources \<Rightarrow> nat \<Rightarrow> transaction list action" where
  "generate_transactions src 0 = unit []"
| "generate_transactions src (Suc n) =
     bind (generate_single_transaction src) (\<lambda>t.
     bind (generate_transactions src n) (\<lambda>ts. unit (t # ts)))"

text \<open>
  \<^verbatim>\<open>range(num_rows)\<close> is empty for \<open>num_rows \<le> 0\<close>. The conversions after the sort
  (\<^verbatim>\<open>to_datetime\<close>, \<^verbatim>\<open>astype\<close>) leave the modelled values as they are.
\<close>

definition generate_data :: "sources \<Rightarrow> int \<Rightarrow> dataframe action" where
  "generate_data src num_rows =
     bind (generate_transactions src (nat num_rows)) (\<lambda>transactions c.
       case sort_values_timestamp (DataFrame transactions) of
         Inl e \<Rightarrow> Inl e
       | Inr df \<Rightarrow> Inr (df, c))"

subsection \<open>The validator\<close>

definition non_p2p_types :: "string list" where
  "non_p2p_types = [''P2M'', ''Bill Payment'', ''Recharge'']"

definition p2p_with_merchant :: "transaction list \<Rightarrow> transaction list" where
  "p2p_with_merchant rs =
     filter (\<lambda>r. transaction_type r = ''P2P'' \<and> merchant_category r \<noteq> None) rs"

definition p2p_without_receiver :: "transaction list \<Rightarrow> transaction list" where
  "p2p_without_receiver rs =
     filter (\<lambda>r. transaction_type r = ''P2P'' \<and> receiver_age_group r = None) rs"

definition non_p2p_with_receiver :: "transaction list \<Rightarrow> transaction list" where
  "non_p2p_with_receiver rs =
     filter (\<lambda>r. transaction_type r \<in> set non_p2p_types \<and> receiver_age_group r \<noteq> None) rs"

definition non_p2p_without_merchant :: "transaction list \<Rightarrow> transaction list" where
  "non_p2p_without_merchant rs =
     filter (\<lambda>r. transaction_type r \<in> set non_p2p_types \<and> merchant_category r = None) rs"

definition msg_p2p_with_merchant :: "nat \<Rightarrow> string" where
  "msg_p2p_with_merchant n =
     ''Rule A violated: '' @ str_nat n @ '' P2P transactions have non-null merchant_category''"

definition msg_p2p_without_receiver :: "nat \<Rightarrow> string" where
  "msg_p2p_without_receiver n =
     ''Rule A violated: '' @ str_nat n @ '' P2P transactions have null receiver_age_group''"

definition msg_non_p2p_with_receiver :: "nat \<Rightarrow> string" where
  "msg_non_p2p_with_receiver n =
     ''Rule B violated: '' @ str_nat n
       @ '' non-P2P transactions have non-null receiver_age_group''"

definition msg_non_p2p_without_merchant :: "nat \<Rightarrow> string" where
  "msg_non_p2p_without_merchant n =
     ''Rule B violated: '' @ str_nat n @ '' non-P2P transactions have null merchant_category''"

text \<open>
  \<^verbatim>\<open>validate_data\<close>: four masks, four lengths, at most one appended message each. A
  column the frame does not have raises \<^verbatim>\<open>KeyError\<close> at its first use.
\<close>

definition validate_data :: "dataframe \<Rightarrow> py_error + string list" where
  "validate_data df =
     (if ''transaction_type'' \<notin> set (columns df) then Inl (KeyError ''transaction_type'')
      else if ''merchant_category'' \<notin> set (columns df) then Inl (KeyError ''merchant_category'')
      else if ''receiver_age_group'' \<notin> set (columns df)
      then Inl (KeyError ''receiver_age_group'')
      else
        (let errors = [];
             errors = (if length (p2p_with_merchant (rows df)) > 0
                       then errors @ [msg_p2p_with_merchant (length (p2p_with_merchant (rows df)))]
                       else errors);
             errors = (if length (p2p_without_receiver (rows df)) > 0
                       then errors
                            @ [msg_p2p_without_receiver (length (p2p_without_receiver (rows df)))]
                       else errors);
             errors = (if length (non_p2p_with_receiver (rows df)) > 0
                       then errors
                            @ [msg_non_p2p_with_receiver (length (non_p2p_with_receiver (rows df)))]
                       else errors);
             errors = (if length (non_p2p_without_merchant (rows df)) > 0
                       then errors
                            @ [msg_non_p2p_without_merchant
                                 (length (non_p2p_without_merchant (rows df)))]
                       else errors)
         in Inr errors))"

text \<open>A table with the seventeen columns of the schema and the given rows.\<close>

definition table :: "transaction list \<Rightarrow> dataframe" where
  "table rs = \<lparr>columns = transaction_keys, rows = rs\<rparr>"

subsection \<open>The properties under study, as the specification words them\<close>

text \<open>
  The range of an amount as the specification describes it: the device's range,
  narrowed by the transaction type (a floor can only rise, a ceiling can only fall).
\<close>

definition spec_device_range :: "string \<Rightarrow> rat \<times> rat" where
  "spec_device_range device =
     (if device = ''Android'' then (10, 25000)
      else if device = ''iOS'' then (50, 45000)
      else (100, 75000))"

definition spec_narrowed_range :: "string \<Rightarrow> string \<Rightarrow> rat \<times> rat" where
  "spec_narrowed_range device ttype =
     (let (lo, hi) = spec_device_range device
      in if ttype = ''Recharge'' then (lo, min hi 2000)
         else if ttype = ''Bill Payment'' then (max lo 100, min hi 50000)
         else if ttype = ''P2M'' then (max lo 20, min hi 30000)
         else (lo, hi))"

text \<open>The ceiling of an iOS amount by transaction type, as the specification lists it.\<close>

definition spec_ios_ceiling :: "string \<Rightarrow> rat" where
  "spec_ios_ceiling ttype =
     (if ttype = ''Recharge'' then 2000 else if ttype = ''P2M'' then 30000 else 45000)"

text \<open>
  The four nullability rules, each as a count of the rows that break it; "non-P2P" is any
  row whose type is not P2P.
\<close>

definition breaks_p2p_merchant_null :: "transaction \<Rightarrow> bool" where
  "breaks_p2p_merchant_null r \<longleftrightarrow> transaction_type r = ''P2P'' \<and> merchant_category r \<noteq> None"

definition breaks_p2p_receiver_present :: "transaction \<Rightarrow> bool" where
  "breaks_p2p_receiver_present r \<longleftrightarrow>
     transaction_type r = ''P2P'' \<and> receiver_age_group r = None"

definition breaks_non_p2p_receiver_null :: "transaction \<Rightarrow> bool" where
  "breaks_non_p2p_receiver_null r \<longleftrightarrow>
     transaction_type r \<noteq> ''P2P'' \<and> receiver_age_group r \<noteq> None"

definition breaks_non_p2p_merchant_present :: "transaction \<Rightarrow> bool" where
  "breaks_non_p2p_merchant_present r \<longleftrightarrow>
     transaction_type r \<noteq> ''P2P'' \<and> merchant_category r = None"

definition satisfies_nullability_rules :: "transaction list \<Rightarrow> bool" where
  "satisfies_nullability_rules rs \<longleftrightarrow>
     filter breaks_p2p_merchant_null rs = [] \<and>
     filter breaks_p2p_receiver_present rs = [] \<and>
     filter breaks_non_p2p_receiver_null rs = [] \<and>
     filter breaks_non_p2p_merchant_present rs = []"

definition known_types :: "transaction list \<Rightarrow> bool" where
  "known_types rs \<longleftrightarrow> filter (\<lambda>r. transaction_type r \<notin> set TRANSACTION_TYPES) rs = []"

text \<open>The rows of a result; none when the call raised.\<close>

definition rows_of :: "py_error + dataframe \<times> cursor \<Rightarrow> transaction list" where
  "rows_of res = (case res of Inl e \<Rightarrow> [] | Inr (df, c) \<Rightarrow> rows df)"

subsection \<open>Concrete runs\<close>

definition list_stream :: "'a \<Rightarrow> 'a list \<Rightarrow> nat \<Rightarrow> 'a" where
  "list_stream d xs k = (if k < length xs then xs ! k else d)"

text \<open>
  A run at 2024-06-15 12:00:00 (a Saturday). The first draw moves the timestamp two
  days after the start of the window, to Saturday 2024-05-18; the second selects
  Recharge (\<open>u\<close> just below 1), the third iOS (\<open>u = 3/4\<close>); the log-normal factor is small.
\<close>

definition run_ios_recharge :: sources where
  "run_ios_recharge =
     \<lparr>py_stream = list_stream 0 [172800, 2 ^ 53 - 1, 3 * 2 ^ 51],
      np_stream = (\<lambda>k. 1 / 100),
      uuid_stream = (\<lambda>k. ''0f8fad5bd9cb469fa16570867728950e''),
      clock = (\<lambda>k. 63854049600000000)\<rparr>"

text \<open>The same moment; the draws select P2M (\<open>u = 1/2\<close>) on Web (\<open>u\<close> just below 1).\<close>

definition run_web_p2m :: sources where
  "run_web_p2m =
     \<lparr>py_stream = list_stream 0 [0, 2 ^ 52, 2 ^ 53 - 1],
      np_stream = (\<lambda>k. 1 / 1000),
      uuid_stream = (\<lambda>k. ''7c9e6679742540de944be07fc1f90ae7''),
      clock = (\<lambda>k. 63854049600000000)\<rparr>"

text \<open>
  The same moment again. The timestamp falls on Saturday 2024-05-18, the type draw
  (\<open>u = 3/4\<close>) selects Bill Payment, and the fifth value of the stream, the one the status
  is drawn from, gives \<open>u = 1/8\<close>: above 5% and below 20%.
\<close>

definition run_weekend_billpay :: sources where
  "run_weekend_billpay =
     \<lparr>py_stream = list_stream 0 [172800, 3 * 2 ^ 51, 0, 0, 2 ^ 50],
      np_stream = (\<lambda>k. 1),
      uuid_stream = (\<lambda>k. ''6fa459eaee8a3ca4894edb77e160355e''),
      clock = (\<lambda>k. 63854049600000000)\<rparr>"

text \<open>
  Two runs of the program on one platform. The seeded generators are the same
  functions of the seed in both; the identifiers of the operating system and the wall
  clock are not.
\<close>

definition some_platform :: platform where
  "some_platform =
     \<lparr>seeded_random = (\<lambda>s k. nat \<bar>s\<bar> + k), seeded_numpy = (\<lambda>s k. 1)\<rparr>"

definition first_run :: process where
  "first_run =
     \<lparr>unseeded_random = (\<lambda>k. 0), unseeded_numpy = (\<lambda>k. 1),
      os_uuid4 = (\<lambda>k. ''0f8fad5bd9cb469fa16570867728950e''),
      wall_clock = (\<lambda>k. 63854049600000000)\<rparr>"

definition second_run :: process where
  "second_run =
     \<lparr>unseeded_random = (\<lambda>k. 0), unseeded_numpy = (\<lambda>k. 1),
      os_uuid4 = (\<lambda>k. ''7c9e6679742540de944be07fc1f90ae7''),
      wall_clock = (\<lambda>k. 63854127000250000)\<rparr>"

text \<open>A well-formed row, and two rows that each break one rule.\<close>

definition blank_row :: transaction where
  "blank_row =
     \<lparr>transaction_id = ''TXN000000000000'', timestamp = 63854049600000000,
      transaction_type = ''P2P'', merchant_category = None, amount_inr = 100,
      transaction_status = ''SUCCESS'', sender_age_group = ''18-25'',
      receiver_age_group = Some ''26-35'', sender_state = ''Kerala'', sender_bank = ''SBI'',
      receiver_bank = ''HDFC'', device_type = ''Android'', network_type = ''4G'', fraud_flag = 0,
      hour_of_day = 12, day_of_week = ''Saturday'', is_weekend = 1\<rparr>"

definition p2p_row_with_merchant :: transaction where
  "p2p_row_with_merchant = blank_row\<lparr>merchant_category := Some ''Food''\<rparr>"

definition p2m_row_with_receiver :: transaction where
  "p2m_row_with_receiver =
     blank_row\<lparr>transaction_type := ''P2M'', merchant_category := Some ''Fuel''\<rparr>"

section \<open>Auxiliary facts\<close>

subsection \<open>State passing and the library calls\<close>

lemma bind_eq_Inr:
  "bind m f c = Inr (r, c'') \<longleftrightarrow> (\<exists>v c'. m c = Inr (v, c') \<and> f v c' = Inr (r, c''))"
  by (auto simp: bind_def split: sum.splits)

lemma unit_eq_Inr: "unit v c = Inr (r, c') \<longleftrightarrow> r = v \<and> c' = c"
  by (auto simp: unit_def)

lemma bisect_bounds: "lo \<le> hi \<Longrightarrow> lo \<le> bisect a x lo hi \<and> bisect a x lo hi \<le> hi"
proof (induction a x lo hi rule: bisect.induct)
  case (1 a x lo hi)
  show ?case
  proof (cases "lo < hi")
    case False
    then have "bisect a x lo hi = lo" by (subst bisect.simps) simp
    then show ?thesis using "1.prems" False by simp
  next
    case True
    define mid where "mid = (lo + hi) div 2"
    have m: "lo \<le> mid" "mid < hi" using True by (auto simp: mid_def)
    show ?thesis
    proof (cases "x < a ! mid")
      case T2: True
      have "lo \<le> bisect a x lo mid \<and> bisect a x lo mid \<le> mid"
        using "1.IH"(1)[OF True mid_def[symmetric, THEN sym] ] T2 m mid_def by auto
      then show ?thesis using True T2 m by (simp add: bisect.simps[of a x lo hi] mid_def[symmetric] Let_def)
    next
      case F2: False
      have "mid + 1 \<le> bisect a x (mid + 1) hi \<and> bisect a x (mid + 1) hi \<le> hi"
        using "1.IH"(2)[of mid] F2 m True mid_def by auto
      then show ?thesis using True F2 m by (simp add: bisect.simps[of a x lo hi] mid_def[symmetric] Let_def)
    qed
  qed
qed

lemma length_accumulate_from: "length (accumulate_from s ws) = length ws"
  by (induction ws arbitrary: s) auto

lemma accumulate_from_Nil: "accumulate_from s ws = [] \<longleftrightarrow> ws = []"
  by (cases ws) auto

lemma random_choices_Inr:
  assumes "random_choices src opts ws c = Inr (v, c')"
  shows "v \<in> set opts"
proof -
  let ?n = "length opts"
  let ?cum = "accumulate ws"
  have n: "length ?cum = ?n"
    using assms unfolding random_choices_def Let_def by (cases "length ?cum = ?n") simp_all
  have ne: "?cum \<noteq> []"
    using assms n unfolding random_choices_def Let_def by (cases "?cum = []") simp_all
  have pos: "0 < ?n" using n ne by (cases opts) auto
  have tot: "\<not> last ?cum \<le> 0"
    using assms n ne unfolding random_choices_def Let_def by (cases "last ?cum \<le> 0") simp_all
  have "random_choices src opts ws c =
      Inr (opts ! bisect ?cum (uniform src (py_pos c) * last ?cum) 0 (?n - 1),
           c\<lparr>py_pos := Suc (py_pos c)\<rparr>)"
    using n ne tot unfolding random_choices_def Let_def
    by (simp add: bind_def random_random_def unit_def)
  with assms have "v = opts ! bisect ?cum (uniform src (py_pos c) * last ?cum) 0 (?n - 1)"
    by simp
  moreover have "bisect ?cum (uniform src (py_pos c) * last ?cum) 0 (?n - 1) \<le> ?n - 1"
    using bisect_bounds[of 0 "?n - 1"] by simp
  then have "bisect ?cum (uniform src (py_pos c) * last ?cum) 0 (?n - 1) < ?n"
    using pos by linarith
  ultimately show ?thesis using nth_mem by blast
qed

lemma random_choices_ok:
  assumes "length ws = length opts" "opts \<noteq> []" "0 < last (accumulate ws)"
  shows "\<exists>v c'. random_choices src opts ws c = Inr (v, c')"
proof -
  have "ws \<noteq> []" using assms(1,2) by auto
  then show ?thesis using assms
    by (simp add: random_choices_def Let_def accumulate_def length_accumulate_from bind_def
        random_random_def unit_def accumulate_from_Nil)
qed

lemma weighted_choice_types_ok:
  "\<exists>v c'. weighted_choice src TRANSACTION_TYPES TRANSACTION_TYPE_WEIGHTS c = Inr (v, c')"
  unfolding weighted_choice_def
  by (rule random_choices_ok) (simp_all add: TRANSACTION_TYPES_def TRANSACTION_TYPE_WEIGHTS_def accumulate_def)

lemma weighted_choice_devices_ok:
  "\<exists>v c'. weighted_choice src DEVICE_TYPES DEVICE_WEIGHTS c = Inr (v, c')"
  unfolding weighted_choice_def
  by (rule random_choices_ok) (simp_all add: DEVICE_TYPES_def DEVICE_WEIGHTS_def accumulate_def)

lemma weighted_choice_ages_ok:
  "\<exists>v c'. weighted_choice src AGE_GROUPS AGE_GROUP_WEIGHTS c = Inr (v, c')"
  unfolding weighted_choice_def
  by (rule random_choices_ok) (simp_all add: AGE_GROUPS_def AGE_GROUP_WEIGHTS_def accumulate_def)

lemma weighted_choice_states_ok:
  "\<exists>v c'. weighted_choice src INDIAN_STATES STATE_WEIGHTS c = Inr (v, c')"
  unfolding weighted_choice_def
  by (rule random_choices_ok) (simp_all add: INDIAN_STATES_def STATE_WEIGHTS_def accumulate_def)

lemma weighted_choice_banks_ok:
  "\<exists>v c'. weighted_choice src BANKS BANK_WEIGHTS c = Inr (v, c')"
  unfolding weighted_choice_def
  by (rule random_choices_ok) (simp_all add: BANKS_def BANK_WEIGHTS_def accumulate_def)

lemma weighted_choice_networks_ok:
  "\<exists>v c'. weighted_choice src NETWORK_TYPES NETWORK_WEIGHTS c = Inr (v, c')"
  unfolding weighted_choice_def
  by (rule random_choices_ok) (simp_all add: NETWORK_TYPES_def NETWORK_WEIGHTS_def accumulate_def)

lemma generate_timestamp_ok: "\<exists>v c'. generate_timestamp src 30 c = Inr (v, c')"
  by (simp add: generate_timestamp_def bind_def datetime_now_def Let_def timedelta_days_def
      total_seconds_def random_randint_def randbelow_def unit_def)

lemma generate_amount_ok: "\<exists>v c'. generate_amount src d t c = Inr (v, c')"
  by (simp add: generate_amount_def bind_def np_random_lognormal_def unit_def split: prod.splits)

lemma generate_transaction_id_ok: "\<exists>v c'. generate_transaction_id src c = Inr (v, c')"
  by (simp add: generate_transaction_id_def)

lemma categories_nonempty:
  "(case MERCHANT_CATEGORY_BY_TYPE t of None \<Rightarrow> MERCHANT_CATEGORIES | Some cs \<Rightarrow> cs) \<noteq> []"
  by (simp add: MERCHANT_CATEGORY_BY_TYPE_def MERCHANT_CATEGORIES_def)

lemma get_merchant_category_ok: "\<exists>v c'. get_merchant_category src t c = Inr (v, c')"
  using categories_nonempty[of t]
  by (simp add: get_merchant_category_def unit_def random_choice_def bind_def randbelow_def Let_def)

lemma determine_failure_status_ok: "\<exists>v c'. determine_failure_status src t w c = Inr (v, c')"
  by (simp add: determine_failure_status_def bind_def random_random_def unit_def Let_def)

lemma determine_fraud_flag_ok: "\<exists>v c'. determine_fraud_flag src a c = Inr (v, c')"
  by (simp add: determine_fraud_flag_def bind_def random_random_def unit_def Let_def)

lemma get_receiver_age_group_ok: "\<exists>v c'. get_receiver_age_group src t c = Inr (v, c')"
proof (cases "t = ''P2P''")
  case True
  obtain v c' where "weighted_choice src AGE_GROUPS AGE_GROUP_WEIGHTS c = Inr (v, c')"
    using weighted_choice_ages_ok by blast
  then show ?thesis using True by (simp add: get_receiver_age_group_def bind_def unit_def)
next
  case False
  then show ?thesis by (simp add: get_receiver_age_group_def unit_def)
qed

lemma generate_single_transaction_ok:
  "\<exists>r c'. generate_single_transaction src c = Inr (r, c')"
proof -
  obtain ts c1 where 1: "generate_timestamp src 30 c = Inr (ts, c1)"
    using generate_timestamp_ok by blast
  obtain tt c2 where 2: "weighted_choice src TRANSACTION_TYPES TRANSACTION_TYPE_WEIGHTS c1 = Inr (tt, c2)"
    using weighted_choice_types_ok by blast
  obtain dv c3 where 3: "weighted_choice src DEVICE_TYPES DEVICE_WEIGHTS c2 = Inr (dv, c3)"
    using weighted_choice_devices_ok by blast
  obtain am c4 where 4: "generate_amount src dv tt c3 = Inr (am, c4)"
    using generate_amount_ok by blast
  obtain tid c5 where 5: "generate_transaction_id src c4 = Inr (tid, c5)"
    using generate_transaction_id_ok by blast
  obtain mc c6 where 6: "get_merchant_category src tt c5 = Inr (mc, c6)"
    using get_merchant_category_ok by blast
  obtain st c7 where 7: "determine_failure_status src tt
      (derived_is_weekend (calculate_derived_fields ts) = 1) c6 = Inr (st, c7)"
    using determine_failure_status_ok by blast
  obtain sa c8 where 8: "weighted_choice src AGE_GROUPS AGE_GROUP_WEIGHTS c7 = Inr (sa, c8)"
    using weighted_choice_ages_ok by blast
  obtain ra c9 where 9: "get_receiver_age_group src tt c8 = Inr (ra, c9)"
    using get_receiver_age_group_ok by blast
  obtain ss c10 where 10: "weighted_choice src INDIAN_STATES STATE_WEIGHTS c9 = Inr (ss, c10)"
    using weighted_choice_states_ok by blast
  obtain sb c11 where 11: "weighted_choice src BANKS BANK_WEIGHTS c10 = Inr (sb, c11)"
    using weighted_choice_banks_ok by blast
  obtain rb c12 where 12: "weighted_choice src BANKS BANK_WEIGHTS c11 = Inr (rb, c12)"
    using weighted_choice_banks_ok by blast
  obtain nw c13 where 13: "weighted_choice src NETWORK_TYPES NETWORK_WEIGHTS c12 = Inr (nw, c13)"
    using weighted_choice_networks_ok by blast
  obtain ff c14 where 14: "determine_fraud_flag src am c13 = Inr (ff, c14)"
    using determine_fraud_flag_ok by blast
  show ?thesis
    unfolding generate_single_transaction_def
    by (simp add: bind_def 1 2 3 4 5 6 7 8 9 10 11 12 13 14 Let_def unit_def)
qed

lemma generate_single_transaction_Inr:
  assumes "generate_single_transaction src c = Inr (r, c')"
  obtains c1 c2 c3 c4 c5 c6 c7 c8 c9 where
    "generate_timestamp src 30 c = Inr (timestamp r, c1)"
    "weighted_choice src TRANSACTION_TYPES TRANSACTION_TYPE_WEIGHTS c1 = Inr (transaction_type r, c2)"
    "weighted_choice src DEVICE_TYPES DEVICE_WEIGHTS c2 = Inr (device_type r, c3)"
    "generate_amount src (device_type r) (transaction_type r) c3 = Inr (amount_inr r, c4)"
    "generate_transaction_id src c4 = Inr (transaction_id r, c5)"
    "get_merchant_category src (transaction_type r) c5 = Inr (merchant_category r, c6)"
    "determine_failure_status src (transaction_type r) (is_weekend r = 1) c6
       = Inr (transaction_status r, c7)"
    "get_receiver_age_group src (transaction_type r) c8 = Inr (receiver_age_group r, c9)"
    "hour_of_day r = derived_hour_of_day (calculate_derived_fields (timestamp r))"
    "day_of_week r = derived_day_of_week (calculate_derived_fields (timestamp r))"
    "is_weekend r = derived_is_weekend (calculate_derived_fields (timestamp r))"
  using assms unfolding generate_single_transaction_def
  by (auto simp: bind_eq_Inr unit_eq_Inr Let_def)

subsection \<open>The assembler and the field producers\<close>

lemma generate_transactions_ok: "\<exists>ts c'. generate_transactions src n c = Inr (ts, c')"
proof (induction n arbitrary: c)
  case 0
  show ?case by (simp add: unit_def)
next
  case (Suc n)
  obtain r c1 where 1: "generate_single_transaction src c = Inr (r, c1)"
    using generate_single_transaction_ok by blast
  obtain ts c2 where 2: "generate_transactions src n c1 = Inr (ts, c2)"
    using Suc.IH by blast
  show ?case by (simp add: bind_def 1 2 unit_def)
qed

lemma generate_transactions_Inr:
  "generate_transactions src n c = Inr (ts, c') \<Longrightarrow>
     length ts = n \<and> (\<forall>r\<in>set ts. \<exists>c1 c2. generate_single_transaction src c1 = Inr (r, c2))"
proof (induction n arbitrary: c ts)
  case 0
  then show ?case by (simp add: unit_eq_Inr)
next
  case (Suc n)
  from Suc.prems obtain r c1 ts' where
    r: "generate_single_transaction src c = Inr (r, c1)" and
    ts': "generate_transactions src n c1 = Inr (ts', c')" and
    eq: "ts = r # ts'"
    by (auto simp: bind_eq_Inr unit_eq_Inr)
  from Suc.IH[OF ts'] r eq show ?case by auto
qed

lemma generate_data_rows:
  assumes "0 < n"
  shows "\<exists>df c'. generate_data src n c = Inr (df, c') \<and> length (rows df) = nat n \<and>
           columns df = transaction_keys \<and>
           (\<forall>r\<in>set (rows df). \<exists>c1 c2. generate_single_transaction src c1 = Inr (r, c2))"
proof -
  obtain ts c' where ts: "generate_transactions src (nat n) c = Inr (ts, c')"
    using generate_transactions_ok by blast
  have len: "length ts = nat n" and
    gen: "\<forall>r\<in>set ts. \<exists>c1 c2. generate_single_transaction src c1 = Inr (r, c2)"
    using generate_transactions_Inr[OF ts] by simp_all
  have ne: "ts \<noteq> []" using len assms by auto
  have "generate_data src n c =
      Inr (\<lparr>columns = transaction_keys, rows = sort_key timestamp ts\<rparr>, c')"
    using ne
    by (simp add: generate_data_def bind_def ts sort_values_timestamp_def DataFrame_def
        transaction_keys_def)
  then show ?thesis using len gen by simp
qed

lemma generate_data_empty:
  "n \<le> 0 \<Longrightarrow> generate_data src n c = Inl (KeyError ''timestamp'')"
  by (simp add: generate_data_def bind_def unit_def sort_values_timestamp_def DataFrame_def)

lemma get_merchant_category_Inr:
  assumes "get_merchant_category src t c = Inr (m, c')"
  shows "(m = None \<longleftrightarrow> t = ''P2P'')"
    and "t = ''Bill Payment'' \<or> t = ''Recharge'' \<Longrightarrow> m = Some ''Utilities''"
    and "t = ''P2M'' \<Longrightarrow> m \<in> {Some ''Food'', Some ''Grocery'', Some ''Fuel'', Some ''Entertainment''}"
proof -
  show "(m = None \<longleftrightarrow> t = ''P2P'')"
    using assms categories_nonempty[of t]
    by (auto simp: get_merchant_category_def unit_eq_Inr bind_eq_Inr random_choice_def Let_def
        split: if_splits)
  show "m = Some ''Utilities''" if "t = ''Bill Payment'' \<or> t = ''Recharge''"
    using assms that
    by (auto simp: get_merchant_category_def unit_eq_Inr bind_eq_Inr random_choice_def Let_def
        MERCHANT_CATEGORY_BY_TYPE_def randbelow_def)
  show "m \<in> {Some ''Food'', Some ''Grocery'', Some ''Fuel'', Some ''Entertainment''}"
    if t: "t = ''P2M''"
  proof -
    let ?cs = "[''Food'', ''Grocery'', ''Fuel'', ''Entertainment'']"
    from assms t obtain i where i: "m = Some (?cs ! (i mod 4))"
      by (auto simp: get_merchant_category_def unit_eq_Inr bind_eq_Inr random_choice_def Let_def
          MERCHANT_CATEGORY_BY_TYPE_def randbelow_def)
    have "i mod 4 < length ?cs" by simp
    then have "?cs ! (i mod 4) \<in> set ?cs" by (rule nth_mem)
    with i show ?thesis by auto
  qed
qed

lemma get_receiver_age_group_Inr:
  assumes "get_receiver_age_group src t c = Inr (a, c')"
  shows "a \<noteq> None \<longleftrightarrow> t = ''P2P''"
  using assms
  by (auto simp: get_receiver_age_group_def unit_eq_Inr bind_eq_Inr split: if_splits)

lemma rint_lower: "of_int m \<le> x \<Longrightarrow> m \<le> rint x"
proof -
  assume "of_int m \<le> x"
  then have "m \<le> \<lfloor>x\<rfloor>" by (simp add: le_floor_iff)
  then show ?thesis by (simp add: rint_def Let_def)
qed

lemma rint_upper: "x \<le> of_int m \<Longrightarrow> rint x \<le> m"
proof (cases "x - of_int \<lfloor>x\<rfloor> < 1 / 2")
  case True
  assume "x \<le> of_int m"
  then have "\<lfloor>x\<rfloor> \<le> m" by (simp add: floor_le_iff) 
  with True show ?thesis by (simp add: rint_def Let_def)
next
  case False
  assume xm: "x \<le> of_int m"
  have "of_int \<lfloor>x\<rfloor> < x" using False by simp
  then have "of_int \<lfloor>x\<rfloor> < (of_int m :: rat)" using xm by simp
  then have "\<lfloor>x\<rfloor> < m" by simp
  then show ?thesis by (simp add: rint_def Let_def)
qed

lemma round2_clip_bounds:
  assumes "lo * 100 \<in> \<int>" "hi * 100 \<in> \<int>" "lo \<le> hi"
  shows "lo \<le> round2 (np_clip x lo hi) \<and> round2 (np_clip x lo hi) \<le> hi"
proof -
  define y where "y = np_clip x lo hi"
  from assms(1) obtain i :: int where i: "lo * 100 = of_int i" by (rule Ints_cases)
  from assms(2) obtain j :: int where j: "hi * 100 = of_int j" by (rule Ints_cases)
  have "lo \<le> y" "y \<le> hi" using assms(3) by (auto simp: np_clip_def y_def)
  then have "of_int i \<le> y * 100" "y * 100 \<le> of_int j"
    using i j by (simp_all flip: i j)
  then have "i \<le> rint (y * 100)" "rint (y * 100) \<le> j"
    by (auto intro: rint_lower rint_upper)
  then have "(of_int i :: rat) \<le> of_int (rint (y * 100))"
    "(of_int (rint (y * 100)) :: rat) \<le> of_int j"
    by simp_all
  then have "lo * 100 \<le> of_int (rint (y * 100))" "of_int (rint (y * 100)) \<le> hi * 100"
    by (simp_all add: i j)
  then have "lo \<le> round2 y \<and> round2 y \<le> hi"
    unfolding round2_def by (simp add: pos_le_divide_eq pos_divide_le_eq)
  then show ?thesis by (simp add: y_def)
qed

lemma amount_bounds_wf:
  "fst (amount_bounds d t) * 100 \<in> \<int> \<and> snd (amount_bounds d t) * 100 \<in> \<int> \<and>
   fst (amount_bounds d t) \<le> snd (amount_bounds d t)"
  by (auto simp: amount_bounds_def AMOUNT_RANGES_def Let_def)

lemma generate_amount_Inr:
  assumes "generate_amount src d t c = Inr (v, c')"
  shows "fst (amount_bounds d t) \<le> v \<and> v \<le> snd (amount_bounds d t)"
proof -
  obtain lo hi where b: "amount_bounds d t = (lo, hi)" by (cases "amount_bounds d t")
  from assms b obtain x where "v = round2 (np_clip x lo hi)"
    by (auto simp: generate_amount_def bind_eq_Inr unit_eq_Inr np_random_lognormal_def)
  moreover have "lo * 100 \<in> \<int>" "hi * 100 \<in> \<int>" "lo \<le> hi"
    using amount_bounds_wf[of d t] b by simp_all
  ultimately show ?thesis using round2_clip_bounds b by simp
qed

lemma amount_bounds_table:
  "amount_bounds ''Android'' ''P2P'' = (10, 25000)"
  "amount_bounds ''Android'' ''P2M'' = (20, 25000)"
  "amount_bounds ''Android'' ''Bill Payment'' = (100, 25000)"
  "amount_bounds ''Android'' ''Recharge'' = (10, 2000)"
  "amount_bounds ''iOS'' ''P2P'' = (50, 45000)"
  "amount_bounds ''iOS'' ''P2M'' = (20, 30000)"
  "amount_bounds ''iOS'' ''Bill Payment'' = (100, 45000)"
  "amount_bounds ''iOS'' ''Recharge'' = (10, 2000)"
  "amount_bounds ''Web'' ''P2P'' = (100, 75000)"
  "amount_bounds ''Web'' ''P2M'' = (20, 30000)"
  "amount_bounds ''Web'' ''Bill Payment'' = (100, 50000)"
  "amount_bounds ''Web'' ''Recharge'' = (10, 2000)"
  by (simp_all add: amount_bounds_def AMOUNT_RANGES_def)

lemma determine_failure_status_Inr:
  assumes "determine_failure_status src t w c = Inr (v, c')"
  shows "v = (if uniform src (py_pos c) < (if t = ''Bill Payment'' \<and> w then 20 / 100 else 5 / 100)
              then ''FAILED'' else ''SUCCESS'')"
  using assms
  by (auto simp: determine_failure_status_def bind_eq_Inr unit_eq_Inr random_random_def Let_def
      WEEKEND_BILLPAY_FAILURE_RATE_def BASE_FAILURE_RATE_def)

lemma uniform_range: "0 \<le> uniform src k \<and> uniform src k < 1"
proof -
  have "py_stream src k mod 2 ^ 53 < 2 ^ 53" by simp
  then have "(of_nat (py_stream src k mod 2 ^ 53) :: rat) < of_nat (2 ^ 53)"
    by (simp only: of_nat_less_iff)
  then show ?thesis by (simp add: uniform_def)
qed

lemma weekday_range: "0 \<le> weekday t \<and> weekday t < 7"
  by (simp add: weekday_def)

lemma weekend_names:
  "strftime_A t \<in> {''Saturday'', ''Sunday''} \<longleftrightarrow> weekday t \<ge> 5"
proof -
  have "weekday t \<in> {0, 1, 2, 3, 4, 5, 6}" using weekday_range[of t] by auto
  then show ?thesis by (auto simp: strftime_A_def day_names_def)
qed

subsection \<open>What every generated row satisfies\<close>

lemma row_types:
  assumes "generate_single_transaction src c1 = Inr (r, c2)"
  shows "transaction_type r \<in> set TRANSACTION_TYPES" and "device_type r \<in> set DEVICE_TYPES"
proof -
  from assms obtain a b c where
    t: "random_choices src TRANSACTION_TYPES TRANSACTION_TYPE_WEIGHTS a = Inr (transaction_type r, b)"
    and d: "random_choices src DEVICE_TYPES DEVICE_WEIGHTS b = Inr (device_type r, c)"
    unfolding weighted_choice_def[symmetric]
    by (erule_tac generate_single_transaction_Inr) blast
  show "transaction_type r \<in> set TRANSACTION_TYPES" using t by (rule random_choices_Inr)
  show "device_type r \<in> set DEVICE_TYPES" using d by (rule random_choices_Inr)
qed

lemma row_nullability:
  assumes "generate_single_transaction src c1 = Inr (r, c2)"
  shows "(transaction_type r = ''P2P'' \<longleftrightarrow> merchant_category r = None) \<and>
         (transaction_type r = ''P2P'' \<longleftrightarrow> receiver_age_group r \<noteq> None)"
  using assms
  by (elim generate_single_transaction_Inr)
     (use get_merchant_category_Inr(1) get_receiver_age_group_Inr in blast)

lemma row_merchant:
  assumes "generate_single_transaction src c1 = Inr (r, c2)"
  shows "transaction_type r = ''Bill Payment'' \<or> transaction_type r = ''Recharge'' \<Longrightarrow>
           merchant_category r = Some ''Utilities''"
    and "transaction_type r = ''P2M'' \<Longrightarrow>
           merchant_category r \<in> {Some ''Food'', Some ''Grocery'', Some ''Fuel'', Some ''Entertainment''}"
proof -
  from assms obtain a b where
    m: "get_merchant_category src (transaction_type r) a = Inr (merchant_category r, b)"
    by (erule_tac generate_single_transaction_Inr) blast
  show "merchant_category r = Some ''Utilities''"
    if "transaction_type r = ''Bill Payment'' \<or> transaction_type r = ''Recharge''"
    using m that by (rule get_merchant_category_Inr(2))
  show "merchant_category r \<in> {Some ''Food'', Some ''Grocery'', Some ''Fuel'', Some ''Entertainment''}"
    if "transaction_type r = ''P2M''"
    using m that by (rule get_merchant_category_Inr(3))
qed

lemma row_amount:
  assumes "generate_single_transaction src c1 = Inr (r, c2)"
  shows "fst (amount_bounds (device_type r) (transaction_type r)) \<le> amount_inr r \<and>
         amount_inr r \<le> snd (amount_bounds (device_type r) (transaction_type r))"
  using assms
  by (elim generate_single_transaction_Inr) (rule generate_amount_Inr)

lemma row_derived:
  assumes "generate_single_transaction src c1 = Inr (r, c2)"
  shows "hour_of_day r = hour (timestamp r)"
    and "day_of_week r = strftime_A (timestamp r)"
    and "is_weekend r = (if 5 \<le> weekday (timestamp r) then 1 else 0)"
proof -
  from assms have
    "hour_of_day r = derived_hour_of_day (calculate_derived_fields (timestamp r)) \<and>
     day_of_week r = derived_day_of_week (calculate_derived_fields (timestamp r)) \<and>
     is_weekend r = derived_is_weekend (calculate_derived_fields (timestamp r))"
    by (erule_tac generate_single_transaction_Inr) blast
  then show "hour_of_day r = hour (timestamp r)"
    and "day_of_week r = strftime_A (timestamp r)"
    and "is_weekend r = (if 5 \<le> weekday (timestamp r) then 1 else 0)"
    by (simp_all add: calculate_derived_fields_def)
qed

lemma row_status:
  assumes "generate_single_transaction src c1 = Inr (r, c2)"
  shows "\<exists>k. transaction_status r =
           (if uniform src k <
                 (if transaction_type r = ''Bill Payment'' \<and> is_weekend r = 1
                  then 20 / 100 else 5 / 100)
            then ''FAILED'' else ''SUCCESS'')"
  using assms
  by (elim generate_single_transaction_Inr) (use determine_failure_status_Inr in blast)

subsection \<open>Evaluating the concrete runs\<close>

lemmas producer_defs =
  generate_single_transaction_def generate_timestamp_def datetime_now_def random_randint_def
  randbelow_def weighted_choice_def random_choices_def random_random_def uniform_def
  generate_amount_def amount_bounds_def AMOUNT_RANGES_def np_random_lognormal_def np_clip_def
  round2_def rint_def generate_transaction_id_def upper_def upper_char_def
  get_merchant_category_def MERCHANT_CATEGORY_BY_TYPE_def MERCHANT_CATEGORIES_def random_choice_def
  determine_failure_status_def determine_fraud_flag_def get_receiver_age_group_def
  calculate_derived_fields_def hour_def weekday_def strftime_A_def day_names_def
  timedelta_days_def timedelta_seconds_def total_seconds_def
  TRANSACTION_TYPES_def TRANSACTION_TYPE_WEIGHTS_def DEVICE_TYPES_def DEVICE_WEIGHTS_def
  AGE_GROUPS_def AGE_GROUP_WEIGHTS_def INDIAN_STATES_def STATE_WEIGHTS_def BANKS_def
  BANK_WEIGHTS_def NETWORK_TYPES_def NETWORK_WEIGHTS_def
  BASE_FAILURE_RATE_def WEEKEND_BILLPAY_FAILURE_RATE_def BASE_FRAUD_RATE_def
  HIGH_VALUE_FRAUD_RATE_def HIGH_VALUE_THRESHOLD_def
  accumulate_def bind_def unit_def Let_def list_stream_def start_def bisect.simps

lemmas table_defs =
  generate_data_def sort_values_timestamp_def DataFrame_def transaction_keys_def rows_of_def

lemma run_ios_recharge_row:
  "generate_single_transaction run_ios_recharge start =
     Inr (\<lparr>transaction_id = ''TXN0F8FAD5BD9CB'', timestamp = 63851630400000000,
           transaction_type = ''Recharge'', merchant_category = Some ''Utilities'',
           amount_inr = 10, transaction_status = ''FAILED'', sender_age_group = ''18-25'',
           receiver_age_group = None, sender_state = ''Maharashtra'', sender_bank = ''SBI'',
           receiver_bank = ''SBI'', device_type = ''iOS'', network_type = ''4G'', fraud_flag = 1,
           hour_of_day = 12, day_of_week = ''Saturday'', is_weekend = 1\<rparr>,
          \<lparr>py_pos = 11, np_pos = 1, uuid_pos = 1, clock_pos = 1\<rparr>)"
  by (simp add: producer_defs run_ios_recharge_def)

lemma run_web_p2m_row:
  "generate_single_transaction run_web_p2m start =
     Inr (\<lparr>transaction_id = ''TXN7C9E66797425'', timestamp = 63851457600000000,
           transaction_type = ''P2M'', merchant_category = Some ''Food'',
           amount_inr = 20, transaction_status = ''FAILED'', sender_age_group = ''18-25'',
           receiver_age_group = None, sender_state = ''Maharashtra'', sender_bank = ''SBI'',
           receiver_bank = ''SBI'', device_type = ''Web'', network_type = ''4G'', fraud_flag = 1,
           hour_of_day = 12, day_of_week = ''Thursday'', is_weekend = 0\<rparr>,
          \<lparr>py_pos = 11, np_pos = 1, uuid_pos = 1, clock_pos = 1\<rparr>)"
  by (simp add: producer_defs run_web_p2m_def)

lemma seeded_first_run:
  "map (\<lambda>r. (transaction_id r, timestamp r))
     (rows_of (generate_data (MockDataGenerator some_platform first_run (Some 42)) 1 start))
   = [(''TXN0F8FAD5BD9CB'', 63851457642000000)]"
  by (simp add: table_defs producer_defs MockDataGenerator_def some_platform_def first_run_def)

lemma seeded_second_run:
  "map (\<lambda>r. (transaction_id r, timestamp r))
     (rows_of (generate_data (MockDataGenerator some_platform second_run (Some 42)) 1 start))
   = [(''TXN7C9E66797425'', 63851535042250000)]"
  by (simp add: table_defs producer_defs MockDataGenerator_def some_platform_def second_run_def)

subsection \<open>The validator on a table of the schema\<close>

lemma validate_data_table:
  "validate_data (table rs) =
     Inr ((if p2p_with_merchant rs \<noteq> []
           then [msg_p2p_with_merchant (length (p2p_with_merchant rs))] else [])
        @ (if p2p_without_receiver rs \<noteq> []
           then [msg_p2p_without_receiver (length (p2p_without_receiver rs))] else [])
        @ (if non_p2p_with_receiver rs \<noteq> []
           then [msg_non_p2p_with_receiver (length (non_p2p_with_receiver rs))] else [])
        @ (if non_p2p_without_merchant rs \<noteq> []
           then [msg_non_p2p_without_merchant (length (non_p2p_without_merchant rs))] else []))"
  by (simp add: validate_data_def table_def transaction_keys_def Let_def)

lemma known_types_non_p2p:
  assumes "known_types rs" "r \<in> set rs"
  shows "transaction_type r \<in> set non_p2p_types \<longleftrightarrow> transaction_type r \<noteq> ''P2P''"
proof -
  from assms have "transaction_type r \<in> set TRANSACTION_TYPES"
    by (auto simp: known_types_def filter_empty_conv)
  then show ?thesis by (auto simp: TRANSACTION_TYPES_def non_p2p_types_def)
qed

lemma known_types_filters:
  assumes "known_types rs"
  shows "p2p_with_merchant rs = filter breaks_p2p_merchant_null rs"
    and "p2p_without_receiver rs = filter breaks_p2p_receiver_present rs"
    and "non_p2p_with_receiver rs = filter breaks_non_p2p_receiver_null rs"
    and "non_p2p_without_merchant rs = filter breaks_non_p2p_merchant_present rs"
proof -
  show "p2p_with_merchant rs = filter breaks_p2p_merchant_null rs"
    unfolding p2p_with_merchant_def
    by (rule filter_cong) (simp_all add: breaks_p2p_merchant_null_def)
  show "p2p_without_receiver rs = filter breaks_p2p_receiver_present rs"
    unfolding p2p_without_receiver_def
    by (rule filter_cong) (simp_all add: breaks_p2p_receiver_present_def)
  show "non_p2p_with_receiver rs = filter breaks_non_p2p_receiver_null rs"
    unfolding non_p2p_with_receiver_def
    by (rule filter_cong)
       (simp_all add: breaks_non_p2p_receiver_null_def known_types_non_p2p[OF assms])
  show "non_p2p_without_merchant rs = filter breaks_non_p2p_merchant_present rs"
    unfolding non_p2p_without_merchant_def
    by (rule filter_cong)
       (simp_all add: breaks_non_p2p_merchant_present_def known_types_non_p2p[OF assms])
qed

lemma example_rows_known_types:
  "known_types [p2p_row_with_merchant, p2m_row_with_receiver]"
  by (simp add: known_types_def p2p_row_with_merchant_def p2m_row_with_receiver_def blank_row_def
      TRANSACTION_TYPES_def)

lemma generated_known_types:
  assumes "0 < n"
  shows "\<exists>df c'. generate_data src n c = Inr (df, c') \<and> known_types (rows df)"
proof -
  from generate_data_rows[OF assms] obtain df c' where
    df: "generate_data src n c = Inr (df, c')" and
    gen: "\<forall>r\<in>set (rows df). \<exists>c1 c2. generate_single_transaction src c1 = Inr (r, c2)"
    by blast
  have "\<forall>r\<in>set (rows df). transaction_type r \<in> set TRANSACTION_TYPES"
    using gen row_types(1) by blast
  then have "known_types (rows df)" by (simp add: known_types_def filter_empty_conv)
  with df show ?thesis by blast
qed

subsection \<open>Which value of the stream decides the status\<close>

lemma random_choices_pos:
  assumes "random_choices src opts ws c = Inr (v, c')"
  shows "py_pos c' = Suc (py_pos c)"
proof -
  have "\<not> length (accumulate ws) \<noteq> length opts" "accumulate ws \<noteq> []"
    "\<not> last (accumulate ws) \<le> 0"
    using assms unfolding random_choices_def Let_def by (auto split: if_splits)
  with assms show ?thesis
    unfolding random_choices_def Let_def
    by (auto simp: bind_def random_random_def unit_def)
qed

lemma generate_timestamp_pos:
  assumes "generate_timestamp src d c = Inr (v, c')"
  shows "py_pos c' = Suc (py_pos c)"
  using assms
  by (auto simp: generate_timestamp_def bind_def datetime_now_def Let_def random_randint_def
      randbelow_def unit_def split: if_splits)

lemma generate_amount_pos:
  assumes "generate_amount src d t c = Inr (v, c')"
  shows "py_pos c' = py_pos c"
  using assms
  by (auto simp: generate_amount_def bind_def np_random_lognormal_def unit_def
      split: prod.splits)

lemma generate_transaction_id_pos:
  assumes "generate_transaction_id src c = Inr (v, c')"
  shows "py_pos c' = py_pos c"
  using assms by (auto simp: generate_transaction_id_def)

lemma get_merchant_category_pos:
  assumes "get_merchant_category src t c = Inr (m, c')"
  shows "py_pos c' = py_pos c + (if t = ''P2P'' then 0 else 1)"
  using assms
  by (auto simp: get_merchant_category_def unit_def bind_def random_choice_def randbelow_def
      Let_def split: if_splits)

lemma row_status_at:
  assumes "generate_single_transaction src c = Inr (r, c')"
  shows "transaction_status r =
           (if uniform src (py_pos c + (if transaction_type r = ''P2P'' then 3 else 4)) <
                 (if transaction_type r = ''Bill Payment'' \<and>
                     strftime_A (timestamp r) \<in> {''Saturday'', ''Sunday''}
                  then 20 / 100 else 5 / 100)
            then ''FAILED'' else ''SUCCESS'')"
proof -
  from assms obtain c1 c2 c3 c4 c5 c6 c7 where
    ts: "generate_timestamp src 30 c = Inr (timestamp r, c1)" and
    ty: "weighted_choice src TRANSACTION_TYPES TRANSACTION_TYPE_WEIGHTS c1
           = Inr (transaction_type r, c2)" and
    dv: "weighted_choice src DEVICE_TYPES DEVICE_WEIGHTS c2 = Inr (device_type r, c3)" and
    am: "generate_amount src (device_type r) (transaction_type r) c3 = Inr (amount_inr r, c4)" and
    id: "generate_transaction_id src c4 = Inr (transaction_id r, c5)" and
    mc: "get_merchant_category src (transaction_type r) c5 = Inr (merchant_category r, c6)" and
    st: "determine_failure_status src (transaction_type r) (is_weekend r = 1) c6
           = Inr (transaction_status r, c7)"
    by (erule_tac generate_single_transaction_Inr) blast
  have "py_pos c1 = Suc (py_pos c)" using ts by (rule generate_timestamp_pos)
  moreover have "py_pos c2 = Suc (py_pos c1)"
    using ty unfolding weighted_choice_def by (rule random_choices_pos)
  moreover have "py_pos c3 = Suc (py_pos c2)"
    using dv unfolding weighted_choice_def by (rule random_choices_pos)
  moreover have "py_pos c4 = py_pos c3" using am by (rule generate_amount_pos)
  moreover have "py_pos c5 = py_pos c4" using id by (rule generate_transaction_id_pos)
  moreover have "py_pos c6 = py_pos c5 + (if transaction_type r = ''P2P'' then 0 else 1)"
    using mc by (rule get_merchant_category_pos)
  ultimately have pos: "py_pos c6 = py_pos c + (if transaction_type r = ''P2P'' then 3 else 4)"
    by simp
  have wk: "is_weekend r = 1 \<longleftrightarrow> strftime_A (timestamp r) \<in> {''Saturday'', ''Sunday''}"
    using row_derived(3)[OF assms] weekend_names[of "timestamp r"] by simp
  show ?thesis
    using determine_failure_status_Inr[OF st] unfolding pos wk .
qed

subsection \<open>The amount range of the code against the specification's\<close>

lemma amount_ceiling_spec:
  assumes "d \<in> set DEVICE_TYPES" "t \<in> set TRANSACTION_TYPES"
  shows "snd (amount_bounds d t) = snd (spec_narrowed_range d t)"
    and "fst (amount_bounds d t) =
           (if t = ''Recharge'' then 10 else if t = ''Bill Payment'' then 100
            else if t = ''P2M'' then 20 else fst (spec_device_range d))"
  using assms
  by (auto simp: DEVICE_TYPES_def TRANSACTION_TYPES_def amount_bounds_def AMOUNT_RANGES_def
      spec_narrowed_range_def spec_device_range_def)

subsection \<open>The tables of the concrete runs\<close>

lemma run_web_p2m_rows:
  "rows_of (generate_data run_web_p2m 1 start) =
     [\<lparr>transaction_id = ''TXN7C9E66797425'', timestamp = 63851457600000000,
       transaction_type = ''P2M'', merchant_category = Some ''Food'',
       amount_inr = 20, transaction_status = ''FAILED'', sender_age_group = ''18-25'',
       receiver_age_group = None, sender_state = ''Maharashtra'', sender_bank = ''SBI'',
       receiver_bank = ''SBI'', device_type = ''Web'', network_type = ''4G'', fraud_flag = 1,
       hour_of_day = 12, day_of_week = ''Thursday'', is_weekend = 0\<rparr>]"
  by (simp add: table_defs bind_def unit_def run_web_p2m_row)

lemma run_ios_recharge_rows:
  "rows_of (generate_data run_ios_recharge 1 start) =
     [\<lparr>transaction_id = ''TXN0F8FAD5BD9CB'', timestamp = 63851630400000000,
       transaction_type = ''Recharge'', merchant_category = Some ''Utilities'',
       amount_inr = 10, transaction_status = ''FAILED'', sender_age_group = ''18-25'',
       receiver_age_group = None, sender_state = ''Maharashtra'', sender_bank = ''SBI'',
       receiver_bank = ''SBI'', device_type = ''iOS'', network_type = ''4G'', fraud_flag = 1,
       hour_of_day = 12, day_of_week = ''Saturday'', is_weekend = 1\<rparr>]"
  by (simp add: table_defs bind_def unit_def run_ios_recharge_row)

lemma run_weekend_billpay_row:
  "generate_single_transaction run_weekend_billpay start =
     Inr (\<lparr>transaction_id = ''TXN6FA459EAEE8A'', timestamp = 63851630400000000,
           transaction_type = ''Bill Payment'', merchant_category = Some ''Utilities'',
           amount_inr = 6275, transaction_status = ''FAILED'', sender_age_group = ''18-25'',
           receiver_age_group = None, sender_state = ''Maharashtra'', sender_bank = ''SBI'',
           receiver_bank = ''SBI'', device_type = ''Android'', network_type = ''4G'',
           fraud_flag = 1, hour_of_day = 12, day_of_week = ''Saturday'', is_weekend = 1\<rparr>,
          \<lparr>py_pos = 11, np_pos = 1, uuid_pos = 1, clock_pos = 1\<rparr>)"
  by (simp add: producer_defs run_weekend_billpay_def)

lemma run_weekend_billpay_rows:
  "rows_of (generate_data run_weekend_billpay 1 start) =
     [\<lparr>transaction_id = ''TXN6FA459EAEE8A'', timestamp = 63851630400000000,
       transaction_type = ''Bill Payment'', merchant_category = Some ''Utilities'',
       amount_inr = 6275, transaction_status = ''FAILED'', sender_age_group = ''18-25'',
       receiver_age_group = None, sender_state = ''Maharashtra'', sender_bank = ''SBI'',
       receiver_bank = ''SBI'', device_type = ''Android'', network_type = ''4G'',
       fraud_flag = 1, hour_of_day = 12, day_of_week = ''Saturday'', is_weekend = 1\<rparr>]"
  by (simp add: table_defs bind_def unit_def run_weekend_billpay_row)

lemma run_weekend_billpay_draw: "uniform run_weekend_billpay 4 = 1 / 8"
  by (simp add: uniform_def run_weekend_billpay_def list_stream_def)

section \<open>The claims\<close>

text \<open>
  In the statements below \<open>src\<close> is any supply of inputs (so any seed and any run), \<open>c\<close>
  any position in it, and \<open>n\<close> the number of rows asked for. A statement about every
  generated row also says that the call returns a table, of \<open>n\<close> rows.
\<close>

subsection \<open>C1: nullability duality\<close>

text \<open>
  Claim C1. In every generated row, the transaction type is P2P exactly when
  \<open>merchant_category\<close> is null, and exactly when \<open>receiver_age_group\<close> is not null. The
  two producers decide presence from the transaction type alone: whatever the supply
  of random values and the position in it, \<open>get_merchant_category\<close> returns null exactly
  for P2P and \<open>get_receiver_age_group\<close> returns a value exactly for P2P.
\<close>

theorem nullability_duality:
  assumes "0 < n"
  shows "\<exists>df c'. generate_data src n c = Inr (df, c') \<and> length (rows df) = nat n \<and>
           (\<forall>r\<in>set (rows df).
              (transaction_type r = ''P2P'' \<longleftrightarrow> merchant_category r = None) \<and>
              (transaction_type r = ''P2P'' \<longleftrightarrow> receiver_age_group r \<noteq> None)) \<and>
           (\<forall>rng t pos. \<exists>m pos'. get_merchant_category rng t pos = Inr (m, pos') \<and>
              (m = None \<longleftrightarrow> t = ''P2P'')) \<and>
           (\<forall>rng t pos. \<exists>a pos'. get_receiver_age_group rng t pos = Inr (a, pos') \<and>
              (a \<noteq> None \<longleftrightarrow> t = ''P2P''))"
proof -
  from generate_data_rows[OF assms] obtain df c' where
    df: "generate_data src n c = Inr (df, c')" "length (rows df) = nat n" and
    gen: "\<forall>r\<in>set (rows df). \<exists>c1 c2. generate_single_transaction src c1 = Inr (r, c2)"
    by blast
  have rows: "\<forall>r\<in>set (rows df).
      (transaction_type r = ''P2P'' \<longleftrightarrow> merchant_category r = None) \<and>
      (transaction_type r = ''P2P'' \<longleftrightarrow> receiver_age_group r \<noteq> None)"
    using gen row_nullability by blast
  have merchant: "\<exists>m pos'. get_merchant_category rng t pos = Inr (m, pos') \<and>
      (m = None \<longleftrightarrow> t = ''P2P'')" for rng t pos
    using get_merchant_category_ok[of rng t pos] get_merchant_category_Inr(1) by blast
  have receiver: "\<exists>a pos'. get_receiver_age_group rng t pos = Inr (a, pos') \<and>
      (a \<noteq> None \<longleftrightarrow> t = ''P2P'')" for rng t pos
    using get_receiver_age_group_ok[of rng t pos] get_receiver_age_group_Inr by blast
  show ?thesis using df rows merchant receiver by blast
qed

theorem nullability_duality_witness:
  "\<exists>df c'. generate_data run_ios_recharge 2 start = Inr (df, c') \<and> length (rows df) = 2 \<and>
           (\<forall>r\<in>set (rows df).
              (transaction_type r = ''P2P'' \<longleftrightarrow> merchant_category r = None) \<and>
              (transaction_type r = ''P2P'' \<longleftrightarrow> receiver_age_group r \<noteq> None))"
proof -
  have "(0::int) < 2" by simp
  from nullability_duality[OF this, of run_ios_recharge start] show ?thesis by auto
qed

subsection \<open>C2: two runs with one seed\<close>

text \<open>
  Claim C2. Two runs that construct the generator with the same seed and generate the
  same number of rows should produce identical tables. The constructor seeds the two
  pseudo-random generators and documents the seed as given "for reproducibility", but
  \<open>transaction_id\<close> comes from \<open>uuid.uuid4()\<close> and \<open>timestamp\<close> is anchored at
  \<open>datetime.now()\<close>, and the seed fixes neither. Below, two runs with seed 42 on one
  platform read the same two seeded streams and still return different tables: the
  identifiers differ, and so do the timestamps.
\<close>

theorem same_seed_different_tables:
  "generate_data (MockDataGenerator some_platform first_run (Some 42)) 1 start \<noteq>
   generate_data (MockDataGenerator some_platform second_run (Some 42)) 1 start \<and>
   map transaction_id
     (rows_of (generate_data (MockDataGenerator some_platform first_run (Some 42)) 1 start))
     = [''TXN0F8FAD5BD9CB''] \<and>
   map transaction_id
     (rows_of (generate_data (MockDataGenerator some_platform second_run (Some 42)) 1 start))
     = [''TXN7C9E66797425''] \<and>
   map timestamp
     (rows_of (generate_data (MockDataGenerator some_platform first_run (Some 42)) 1 start))
     = [63851457642000000] \<and>
   map timestamp
     (rows_of (generate_data (MockDataGenerator some_platform second_run (Some 42)) 1 start))
     = [63851535042250000] \<and>
   py_stream (MockDataGenerator some_platform first_run (Some 42)) =
     py_stream (MockDataGenerator some_platform second_run (Some 42)) \<and>
   np_stream (MockDataGenerator some_platform first_run (Some 42)) =
     np_stream (MockDataGenerator some_platform second_run (Some 42))"
proof -
  let ?a = "generate_data (MockDataGenerator some_platform first_run (Some 42)) 1 start"
  let ?b = "generate_data (MockDataGenerator some_platform second_run (Some 42)) 1 start"
  have a: "map (\<lambda>r. (transaction_id r, timestamp r)) (rows_of ?a)
      = [(''TXN0F8FAD5BD9CB'', 63851457642000000)]"
    by (rule seeded_first_run)
  have b: "map (\<lambda>r. (transaction_id r, timestamp r)) (rows_of ?b)
      = [(''TXN7C9E66797425'', 63851535042250000)]"
    by (rule seeded_second_run)
  have "?a \<noteq> ?b"
  proof
    assume "?a = ?b"
    with a b show False by simp
  qed
  moreover have "map transaction_id (rows_of ?a) = map fst (map (\<lambda>r. (transaction_id r, timestamp r)) (rows_of ?a))"
    "map timestamp (rows_of ?a) = map snd (map (\<lambda>r. (transaction_id r, timestamp r)) (rows_of ?a))"
    "map transaction_id (rows_of ?b) = map fst (map (\<lambda>r. (transaction_id r, timestamp r)) (rows_of ?b))"
    "map timestamp (rows_of ?b) = map snd (map (\<lambda>r. (transaction_id r, timestamp r)) (rows_of ?b))"
    by (simp_all add: comp_def)
  ultimately show ?thesis
    unfolding a b by (simp add: MockDataGenerator_def)
qed

subsection \<open>C3: amounts on iOS\<close>

text \<open>
  Claim C3, as amended. In every generated row whose device is iOS, the amount is at
  most the ceiling of its type (2,000 for Recharge, 30,000 for P2M, 45,000 for Bill
  Payment and P2P), and at least the floor of its type: 10 for Recharge, 20 for P2M, 100
  for Bill Payment, and 50, the floor of the device, for P2P.
\<close>

theorem ios_amount_bounds:
  assumes "0 < n"
  shows "\<exists>df c'. generate_data src n c = Inr (df, c') \<and> length (rows df) = nat n \<and>
           (\<forall>r\<in>set (rows df). device_type r = ''iOS'' \<longrightarrow>
              amount_inr r \<le> spec_ios_ceiling (transaction_type r) \<and>
              (if transaction_type r = ''Recharge'' then 10
               else if transaction_type r = ''P2M'' then 20
               else if transaction_type r = ''Bill Payment'' then 100
               else 50) \<le> amount_inr r)"
proof -
  from generate_data_rows[OF assms] obtain df c' where
    df: "generate_data src n c = Inr (df, c')" "length (rows df) = nat n" and
    gen: "\<forall>r\<in>set (rows df). \<exists>c1 c2. generate_single_transaction src c1 = Inr (r, c2)"
    by blast
  have "amount_inr r \<le> spec_ios_ceiling (transaction_type r) \<and>
        (if transaction_type r = ''Recharge'' then 10
         else if transaction_type r = ''P2M'' then 20
         else if transaction_type r = ''Bill Payment'' then 100
         else 50) \<le> amount_inr r"
    if "r \<in> set (rows df)" and ios: "device_type r = ''iOS''" for r
  proof -
    from gen that obtain c1 c2 where g: "generate_single_transaction src c1 = Inr (r, c2)"
      by blast
    have "transaction_type r \<in> {''P2P'', ''P2M'', ''Bill Payment'', ''Recharge''}"
      using row_types(1)[OF g] by (simp add: TRANSACTION_TYPES_def)
    then consider "transaction_type r = ''P2P''" | "transaction_type r = ''P2M''"
      | "transaction_type r = ''Bill Payment''" | "transaction_type r = ''Recharge''"
      by blast
    then show ?thesis
      using row_amount[OF g] unfolding ios
      by cases (simp_all add: amount_bounds_table spec_ios_ceiling_def)
  qed
  then show ?thesis using df by blast
qed

theorem ios_amount_bounds_witness:
  "\<exists>df c'. generate_data run_ios_recharge 1 start = Inr (df, c') \<and>
     map (\<lambda>r. (device_type r, transaction_type r, amount_inr r)) (rows df)
       = [(''iOS'', ''Recharge'', 10)] \<and>
     (\<forall>r\<in>set (rows df). device_type r = ''iOS'' \<longrightarrow>
        amount_inr r \<le> spec_ios_ceiling (transaction_type r) \<and>
        (if transaction_type r = ''Recharge'' then 10
         else if transaction_type r = ''P2M'' then 20
         else if transaction_type r = ''Bill Payment'' then 100
         else 50) \<le> amount_inr r)"
proof -
  have "(0::int) < 1" by simp
  from ios_amount_bounds[OF this, of run_ios_recharge start] obtain df c' where
    df: "generate_data run_ios_recharge 1 start = Inr (df, c')" and
    b: "\<forall>r\<in>set (rows df). device_type r = ''iOS'' \<longrightarrow>
        amount_inr r \<le> spec_ios_ceiling (transaction_type r) \<and>
        (if transaction_type r = ''Recharge'' then 10
         else if transaction_type r = ''P2M'' then 20
         else if transaction_type r = ''Bill Payment'' then 100
         else 50) \<le> amount_inr r"
    by blast
  have m: "map (\<lambda>r. (device_type r, transaction_type r, amount_inr r)) (rows df)
       = [(''iOS'', ''Recharge'', 10)]"
    using run_ios_recharge_rows unfolding df by (simp add: rows_of_def)
  show ?thesis
    by (rule exI[of _ df], rule exI[of _ c']) (intro conjI df m b)
qed

text \<open>
  The floor of 50 does not hold for every type: the run \<open>run_ios_recharge\<close> generates a
  Recharge row on iOS whose amount is 10.
\<close>

theorem ios_floor_counterexample:
  "\<exists>r\<in>set (rows_of (generate_data run_ios_recharge 1 start)).
     device_type r = ''iOS'' \<and> transaction_type r = ''Recharge'' \<and> amount_inr r = 10 \<and>
     \<not> (50 \<le> amount_inr r \<and> amount_inr r \<le> spec_ios_ceiling (transaction_type r))"
  unfolding run_ios_recharge_rows by simp

subsection \<open>C4: the range of an amount\<close>

text \<open>
  Claim C4, as amended. Every generated row has one of the three devices and one of
  the four types, its amount is at most the ceiling the specification describes (the
  device's ceiling, capped at 2,000 for Recharge, 50,000 for Bill Payment and 30,000 for
  P2M), and it is at least the floor of its type: 10 for Recharge, 100 for Bill Payment,
  20 for P2M, and the device's floor for P2P. The type's floor replaces the device's
  floor; it does not narrow it.
\<close>

theorem amount_range_by_device_and_type:
  assumes "0 < n"
  shows "\<exists>df c'. generate_data src n c = Inr (df, c') \<and> length (rows df) = nat n \<and>
           (\<forall>r\<in>set (rows df).
              device_type r \<in> {''Android'', ''iOS'', ''Web''} \<and>
              transaction_type r \<in> {''P2P'', ''P2M'', ''Bill Payment'', ''Recharge''} \<and>
              amount_inr r \<le> snd (spec_narrowed_range (device_type r) (transaction_type r)) \<and>
              (if transaction_type r = ''Recharge'' then 10
               else if transaction_type r = ''Bill Payment'' then 100
               else if transaction_type r = ''P2M'' then 20
               else fst (spec_device_range (device_type r))) \<le> amount_inr r)"
proof -
  from generate_data_rows[OF assms] obtain df c' where
    df: "generate_data src n c = Inr (df, c')" "length (rows df) = nat n" and
    gen: "\<forall>r\<in>set (rows df). \<exists>c1 c2. generate_single_transaction src c1 = Inr (r, c2)"
    by blast
  have "device_type r \<in> {''Android'', ''iOS'', ''Web''} \<and>
        transaction_type r \<in> {''P2P'', ''P2M'', ''Bill Payment'', ''Recharge''} \<and>
        amount_inr r \<le> snd (spec_narrowed_range (device_type r) (transaction_type r)) \<and>
        (if transaction_type r = ''Recharge'' then 10
         else if transaction_type r = ''Bill Payment'' then 100
         else if transaction_type r = ''P2M'' then 20
         else fst (spec_device_range (device_type r))) \<le> amount_inr r"
    if "r \<in> set (rows df)" for r
  proof -
    from gen that obtain c1 c2 where g: "generate_single_transaction src c1 = Inr (r, c2)"
      by blast
    note ty = row_types[OF g]
    have d: "device_type r \<in> {''Android'', ''iOS'', ''Web''}"
      using ty(2) by (simp add: DEVICE_TYPES_def)
    have t: "transaction_type r \<in> {''P2P'', ''P2M'', ''Bill Payment'', ''Recharge''}"
      using ty(1) by (simp add: TRANSACTION_TYPES_def)
    show ?thesis
      using row_amount[OF g] d t
      unfolding amount_ceiling_spec(1)[OF ty(2) ty(1)] amount_ceiling_spec(2)[OF ty(2) ty(1)]
      by blast
  qed
  then show ?thesis using df by blast
qed

theorem amount_range_by_device_and_type_witness:
  "\<exists>df c'. generate_data run_web_p2m 1 start = Inr (df, c') \<and>
     map (\<lambda>r. (device_type r, transaction_type r, amount_inr r)) (rows df)
       = [(''Web'', ''P2M'', 20)] \<and>
     (\<forall>r\<in>set (rows df).
        amount_inr r \<le> snd (spec_narrowed_range (device_type r) (transaction_type r)) \<and>
        (if transaction_type r = ''Recharge'' then 10
         else if transaction_type r = ''Bill Payment'' then 100
         else if transaction_type r = ''P2M'' then 20
         else fst (spec_device_range (device_type r))) \<le> amount_inr r)"
proof -
  have "(0::int) < 1" by simp
  from amount_range_by_device_and_type[OF this, of run_web_p2m start] obtain df c' where
    df: "generate_data run_web_p2m 1 start = Inr (df, c')" and
    b: "\<forall>r\<in>set (rows df).
        amount_inr r \<le> snd (spec_narrowed_range (device_type r) (transaction_type r)) \<and>
        (if transaction_type r = ''Recharge'' then 10
         else if transaction_type r = ''Bill Payment'' then 100
         else if transaction_type r = ''P2M'' then 20
         else fst (spec_device_range (device_type r))) \<le> amount_inr r"
    by blast
  have m: "map (\<lambda>r. (device_type r, transaction_type r, amount_inr r)) (rows df)
       = [(''Web'', ''P2M'', 20)]"
    using run_web_p2m_rows unfolding df by (simp add: rows_of_def)
  show ?thesis
    by (rule exI[of _ df], rule exI[of _ c']) (intro conjI df m b)
qed

text \<open>
  With the floor narrowed as the specification words it, a P2M amount on Web would be
  at least 100. The run \<open>run_web_p2m\<close> generates a P2M row on Web whose amount is 20.
\<close>

theorem amount_range_counterexample:
  "\<exists>r\<in>set (rows_of (generate_data run_web_p2m 1 start)).
     device_type r = ''Web'' \<and> transaction_type r = ''P2M'' \<and> amount_inr r = 20 \<and>
     spec_narrowed_range (device_type r) (transaction_type r) = (100, 30000) \<and>
     \<not> (fst (spec_narrowed_range (device_type r) (transaction_type r)) \<le> amount_inr r \<and>
        amount_inr r \<le> snd (spec_narrowed_range (device_type r) (transaction_type r)))"
  unfolding run_web_p2m_rows
  by (simp add: spec_narrowed_range_def spec_device_range_def)

subsection \<open>C5: derived fields\<close>

text \<open>
  Claim C5. In every generated row, \<open>hour_of_day\<close> is the hour of the stored timestamp,
  \<open>day_of_week\<close> is its weekday name, and \<open>is_weekend\<close> is 1 if that name is Saturday or
  Sunday and 0 otherwise; the three stored fields are what
  \<open>calculate_derived_fields\<close> returns on the stored timestamp.
\<close>

theorem derived_fields_consistent:
  assumes "0 < n"
  shows "\<exists>df c'. generate_data src n c = Inr (df, c') \<and> length (rows df) = nat n \<and>
           (\<forall>r\<in>set (rows df).
              hour_of_day r = hour (timestamp r) \<and>
              day_of_week r = strftime_A (timestamp r) \<and>
              is_weekend r =
                (if strftime_A (timestamp r) \<in> {''Saturday'', ''Sunday''} then 1 else 0) \<and>
              \<lparr>derived_hour_of_day = hour_of_day r, derived_day_of_week = day_of_week r,
               derived_is_weekend = is_weekend r\<rparr> = calculate_derived_fields (timestamp r))"
proof -
  from generate_data_rows[OF assms] obtain df c' where
    df: "generate_data src n c = Inr (df, c')" "length (rows df) = nat n" and
    gen: "\<forall>r\<in>set (rows df). \<exists>c1 c2. generate_single_transaction src c1 = Inr (r, c2)"
    by blast
  have "hour_of_day r = hour (timestamp r) \<and>
        day_of_week r = strftime_A (timestamp r) \<and>
        is_weekend r = (if strftime_A (timestamp r) \<in> {''Saturday'', ''Sunday''} then 1 else 0) \<and>
        \<lparr>derived_hour_of_day = hour_of_day r, derived_day_of_week = day_of_week r,
         derived_is_weekend = is_weekend r\<rparr> = calculate_derived_fields (timestamp r)"
    if "r \<in> set (rows df)" for r
  proof -
    from gen that obtain c1 c2 where g: "generate_single_transaction src c1 = Inr (r, c2)"
      by blast
    show ?thesis
      using row_derived[OF g] weekend_names[of "timestamp r"]
      by (simp add: calculate_derived_fields_def)
  qed
  then show ?thesis using df by blast
qed

theorem derived_fields_consistent_witness:
  "\<exists>df c'. generate_data run_web_p2m 3 start = Inr (df, c') \<and> length (rows df) = 3 \<and>
           (\<forall>r\<in>set (rows df).
              hour_of_day r = hour (timestamp r) \<and>
              day_of_week r = strftime_A (timestamp r) \<and>
              is_weekend r =
                (if strftime_A (timestamp r) \<in> {''Saturday'', ''Sunday''} then 1 else 0))"
proof -
  have "(0::int) < 3" by simp
  from derived_fields_consistent[OF this, of run_web_p2m start] show ?thesis by auto
qed

subsection \<open>C6: the failure status\<close>

text \<open>
  Claim C6. The status of every generated row is decided by one uniform draw \<open>u\<close> of
  \<open>[0, 1)\<close>, the one the record consumes for it: the record built from position \<open>c1\<close> of
  the random stream reads its status draw at offset 3 for a P2P row and at offset 4 for
  any other row (after the timestamp, the type, the device and, when there is one, the
  merchant category). The row is FAILED when \<open>u\<close> is below the failure rate and SUCCESS
  otherwise, and the rate is 20% exactly when the row is a Bill Payment whose timestamp
  falls on a Saturday or Sunday, and 5% in every other case. This holds for the record
  built from any position, and every row of a generated table is such a record. (A
  probability is stated as the threshold the draw is compared with; the distribution of
  the draw is the library's.)
\<close>

theorem conditional_failure_sampling:
  assumes "0 < n"
  shows "\<exists>df c'. generate_data src n c = Inr (df, c') \<and> length (rows df) = nat n \<and>
           (\<forall>r\<in>set (rows df). \<exists>c1 c2.
              generate_single_transaction src c1 = Inr (r, c2) \<and>
              transaction_status r =
                (if uniform src (py_pos c1 + (if transaction_type r = ''P2P'' then 3 else 4)) <
                      (if transaction_type r = ''Bill Payment'' \<and>
                          strftime_A (timestamp r) \<in> {''Saturday'', ''Sunday''}
                       then 20 / 100 else 5 / 100)
                 then ''FAILED'' else ''SUCCESS'')) \<and>
           (\<forall>c1. \<exists>r c2.
              generate_single_transaction src c1 = Inr (r, c2) \<and>
              transaction_status r =
                (if uniform src (py_pos c1 + (if transaction_type r = ''P2P'' then 3 else 4)) <
                      (if transaction_type r = ''Bill Payment'' \<and>
                          strftime_A (timestamp r) \<in> {''Saturday'', ''Sunday''}
                       then 20 / 100 else 5 / 100)
                 then ''FAILED'' else ''SUCCESS'')) \<and>
           (\<forall>k. 0 \<le> uniform src k \<and> uniform src k < 1)"
proof -
  from generate_data_rows[OF assms] obtain df c' where
    df: "generate_data src n c = Inr (df, c')" "length (rows df) = nat n" and
    gen: "\<forall>r\<in>set (rows df). \<exists>c1 c2. generate_single_transaction src c1 = Inr (r, c2)"
    by blast
  have rows: "\<forall>r\<in>set (rows df). \<exists>c1 c2.
      generate_single_transaction src c1 = Inr (r, c2) \<and>
      transaction_status r =
        (if uniform src (py_pos c1 + (if transaction_type r = ''P2P'' then 3 else 4)) <
              (if transaction_type r = ''Bill Payment'' \<and>
                  strftime_A (timestamp r) \<in> {''Saturday'', ''Sunday''}
               then 20 / 100 else 5 / 100)
         then ''FAILED'' else ''SUCCESS'')"
  proof
    fix r assume "r \<in> set (rows df)"
    with gen obtain c1 c2 where g: "generate_single_transaction src c1 = Inr (r, c2)"
      by blast
    from g row_status_at[OF g] show "\<exists>c1 c2.
      generate_single_transaction src c1 = Inr (r, c2) \<and>
      transaction_status r =
        (if uniform src (py_pos c1 + (if transaction_type r = ''P2P'' then 3 else 4)) <
              (if transaction_type r = ''Bill Payment'' \<and>
                  strftime_A (timestamp r) \<in> {''Saturday'', ''Sunday''}
               then 20 / 100 else 5 / 100)
         then ''FAILED'' else ''SUCCESS'')"
      by blast
  qed
  have single: "\<forall>c1. \<exists>r c2.
      generate_single_transaction src c1 = Inr (r, c2) \<and>
      transaction_status r =
        (if uniform src (py_pos c1 + (if transaction_type r = ''P2P'' then 3 else 4)) <
              (if transaction_type r = ''Bill Payment'' \<and>
                  strftime_A (timestamp r) \<in> {''Saturday'', ''Sunday''}
               then 20 / 100 else 5 / 100)
         then ''FAILED'' else ''SUCCESS'')"
  proof
    fix c1
    obtain r c2 where g: "generate_single_transaction src c1 = Inr (r, c2)"
      using generate_single_transaction_ok by blast
    from g row_status_at[OF g] show "\<exists>r c2.
      generate_single_transaction src c1 = Inr (r, c2) \<and>
      transaction_status r =
        (if uniform src (py_pos c1 + (if transaction_type r = ''P2P'' then 3 else 4)) <
              (if transaction_type r = ''Bill Payment'' \<and>
                  strftime_A (timestamp r) \<in> {''Saturday'', ''Sunday''}
               then 20 / 100 else 5 / 100)
         then ''FAILED'' else ''SUCCESS'')"
      by blast
  qed
  have range: "\<forall>k. 0 \<le> uniform src k \<and> uniform src k < 1"
    using uniform_range by blast
  show ?thesis
    by (rule exI[of _ df], rule exI[of _ c']) (intro conjI df rows single range)
qed

text \<open>
  The run \<open>run_weekend_billpay\<close> generates a Bill Payment on a Saturday whose status draw
  is \<open>1/8\<close>: the row is FAILED, which only the 20% rate explains.
\<close>

theorem conditional_failure_sampling_witness:
  "\<exists>df c'. generate_data run_weekend_billpay 1 start = Inr (df, c') \<and>
     map (\<lambda>r. (transaction_type r, strftime_A (timestamp r), transaction_status r)) (rows df)
       = [(''Bill Payment'', ''Saturday'', ''FAILED'')] \<and>
     uniform run_weekend_billpay 4 = 1 / 8 \<and>
     (\<forall>r\<in>set (rows df). \<exists>c1 c2.
        generate_single_transaction run_weekend_billpay c1 = Inr (r, c2) \<and>
        transaction_status r =
          (if uniform run_weekend_billpay
                (py_pos c1 + (if transaction_type r = ''P2P'' then 3 else 4)) <
                (if transaction_type r = ''Bill Payment'' \<and>
                    strftime_A (timestamp r) \<in> {''Saturday'', ''Sunday''}
                 then 20 / 100 else 5 / 100)
           then ''FAILED'' else ''SUCCESS''))"
proof -
  have "(0::int) < 1" by simp
  from conditional_failure_sampling[OF this, of run_weekend_billpay start] obtain df c' where
    df: "generate_data run_weekend_billpay 1 start = Inr (df, c')" and
    st: "\<forall>r\<in>set (rows df). \<exists>c1 c2.
        generate_single_transaction run_weekend_billpay c1 = Inr (r, c2) \<and>
        transaction_status r =
          (if uniform run_weekend_billpay
                (py_pos c1 + (if transaction_type r = ''P2P'' then 3 else 4)) <
                (if transaction_type r = ''Bill Payment'' \<and>
                    strftime_A (timestamp r) \<in> {''Saturday'', ''Sunday''}
                 then 20 / 100 else 5 / 100)
           then ''FAILED'' else ''SUCCESS'')"
    by blast
  have m: "map (\<lambda>r. (transaction_type r, strftime_A (timestamp r), transaction_status r)) (rows df)
       = [(''Bill Payment'', ''Saturday'', ''FAILED'')]"
    using run_weekend_billpay_rows unfolding df
    by (simp add: rows_of_def strftime_A_def weekday_def day_names_def)
  show ?thesis
    by (rule exI[of _ df], rule exI[of _ c'])
       (intro conjI df m run_weekend_billpay_draw st)
qed

subsection \<open>C7: what the validator reports\<close>

text \<open>
  Claim C7. A table of the data model has a transaction type in every row that is one
  of P2P, P2M, Bill Payment and Recharge (\<open>known_types\<close>; every table \<open>generate_data\<close>
  returns is one, \<open>generated_known_types\<close>). For every such table \<open>validate_data\<close>
  returns a list that is empty exactly when the table satisfies the four nullability
  rules. The rules are checked independently: the result is, in the order of the rules,
  the message of each rule that some row breaks, so rules broken together are all
  reported, not only the first.
\<close>

theorem validator_complete_on_known_types:
  assumes "known_types rs"
  shows "\<exists>errs. validate_data (table rs) = Inr errs \<and>
           (errs = [] \<longleftrightarrow> satisfies_nullability_rules rs) \<and>
           errs =
             (if filter breaks_p2p_merchant_null rs \<noteq> []
              then [msg_p2p_with_merchant (length (filter breaks_p2p_merchant_null rs))]
              else [])
           @ (if filter breaks_p2p_receiver_present rs \<noteq> []
              then [msg_p2p_without_receiver (length (filter breaks_p2p_receiver_present rs))]
              else [])
           @ (if filter breaks_non_p2p_receiver_null rs \<noteq> []
              then [msg_non_p2p_with_receiver (length (filter breaks_non_p2p_receiver_null rs))]
              else [])
           @ (if filter breaks_non_p2p_merchant_present rs \<noteq> []
              then [msg_non_p2p_without_merchant
                      (length (filter breaks_non_p2p_merchant_present rs))]
              else [])"
  unfolding validate_data_table known_types_filters[OF assms] satisfies_nullability_rules_def
  by simp

theorem validator_complete_on_known_types_witness:
  "known_types [p2p_row_with_merchant, p2m_row_with_receiver] \<and>
   validate_data (table [p2p_row_with_merchant, p2m_row_with_receiver]) =
     Inr [''Rule A violated: 1 P2P transactions have non-null merchant_category'',
          ''Rule B violated: 1 non-P2P transactions have non-null receiver_age_group''] \<and>
   \<not> satisfies_nullability_rules [p2p_row_with_merchant, p2m_row_with_receiver]"
proof -
  from validator_complete_on_known_types[OF example_rows_known_types] obtain errs where
    e: "validate_data (table [p2p_row_with_merchant, p2m_row_with_receiver]) = Inr errs"
    and iff: "errs = [] \<longleftrightarrow> satisfies_nullability_rules [p2p_row_with_merchant, p2m_row_with_receiver]"
    by blast
  have v: "validate_data (table [p2p_row_with_merchant, p2m_row_with_receiver]) =
     Inr [''Rule A violated: 1 P2P transactions have non-null merchant_category'',
          ''Rule B violated: 1 non-P2P transactions have non-null receiver_age_group'']"
    by (simp add: validate_data_table p2p_with_merchant_def p2p_without_receiver_def
        non_p2p_with_receiver_def non_p2p_without_merchant_def non_p2p_types_def
        p2p_row_with_merchant_def p2m_row_with_receiver_def blank_row_def
        msg_p2p_with_merchant_def msg_non_p2p_with_receiver_def digit_char_def)
  from e v iff show ?thesis using example_rows_known_types by auto
qed

subsection \<open>C8: no rows asked for\<close>

text \<open>
  Claim C8. Asked for no rows, the generator should either reject the input as invalid
  or return an empty table that can be summarised. It does neither: \<open>num_rows\<close> is never
  examined, the loop builds the empty list of records, the frame made of it has no
  column, and the sort on \<open>timestamp\<close> raises \<open>KeyError\<close>. No table is returned, so there
  is nothing to summarise. The theorem evaluates the call for every supply of inputs.
\<close>

theorem generate_data_zero_rows:
  "generate_data src 0 c = Inl (KeyError ''timestamp'') \<and>
   generate_transactions src (nat 0) c = Inr ([], c) \<and>
   columns (DataFrame []) = [] \<and>
   sort_values_timestamp (DataFrame []) = Inl (KeyError ''timestamp'')"
  by (simp add: generate_data_empty unit_def DataFrame_def sort_values_timestamp_def)

subsection \<open>C9: merchant categories by transaction type\<close>

text \<open>
  Claim C9. In every generated row, a Bill Payment or a Recharge has the merchant
  category Utilities, and a P2M row has one of Food, Grocery, Fuel and Entertainment,
  never Utilities.
\<close>

theorem merchant_category_by_type:
  assumes "0 < n"
  shows "\<exists>df c'. generate_data src n c = Inr (df, c') \<and> length (rows df) = nat n \<and>
           (\<forall>r\<in>set (rows df).
              (transaction_type r = ''Bill Payment'' \<or> transaction_type r = ''Recharge'' \<longrightarrow>
                 merchant_category r = Some ''Utilities'') \<and>
              (transaction_type r = ''P2M'' \<longrightarrow>
                 merchant_category r \<in>
                   {Some ''Food'', Some ''Grocery'', Some ''Fuel'', Some ''Entertainment''} \<and>
                 merchant_category r \<noteq> Some ''Utilities''))"
proof -
  from generate_data_rows[OF assms] obtain df c' where
    df: "generate_data src n c = Inr (df, c')" "length (rows df) = nat n" and
    gen: "\<forall>r\<in>set (rows df). \<exists>c1 c2. generate_single_transaction src c1 = Inr (r, c2)"
    by blast
  have "(transaction_type r = ''Bill Payment'' \<or> transaction_type r = ''Recharge'' \<longrightarrow>
           merchant_category r = Some ''Utilities'') \<and>
        (transaction_type r = ''P2M'' \<longrightarrow>
           merchant_category r \<in>
             {Some ''Food'', Some ''Grocery'', Some ''Fuel'', Some ''Entertainment''} \<and>
           merchant_category r \<noteq> Some ''Utilities'')"
    if "r \<in> set (rows df)" for r
  proof -
    from gen that obtain c1 c2 where g: "generate_single_transaction src c1 = Inr (r, c2)"
      by blast
    have "merchant_category r \<noteq> Some ''Utilities''" if "transaction_type r = ''P2M''"
      using row_merchant(2)[OF g that] by auto
    then show ?thesis using row_merchant[OF g] by blast
  qed
  then show ?thesis using df by blast
qed

theorem merchant_category_by_type_witness:
  "\<exists>df c'. generate_data run_web_p2m 1 start = Inr (df, c') \<and> length (rows df) = 1 \<and>
           (\<forall>r\<in>set (rows df).
              (transaction_type r = ''Bill Payment'' \<or> transaction_type r = ''Recharge'' \<longrightarrow>
                 merchant_category r = Some ''Utilities'') \<and>
              (transaction_type r = ''P2M'' \<longrightarrow>
                 merchant_category r \<in>
                   {Some ''Food'', Some ''Grocery'', Some ''Fuel'', Some ''Entertainment''} \<and>
                 merchant_category r \<noteq> Some ''Utilities''))"
proof -
  have "(0::int) < 1" by simp
  from merchant_category_by_type[OF this, of run_web_p2m start] show ?thesis by auto
qed

subsection \<open>C10: the size of the validator's answer\<close>

text \<open>
  Claim C10. For every table, however many rows break the rules, \<open>validate_data\<close>
  returns at most four messages: for each of the four rules, in order, exactly one
  message when some row breaks the rule and none otherwise, and the message carries the
  number of rows that break that rule.
\<close>

theorem validate_data_bounded:
  "\<exists>errs. validate_data (table rs) = Inr errs \<and> length errs \<le> 4 \<and>
     errs =
       (if p2p_with_merchant rs \<noteq> []
        then [''Rule A violated: '' @ str_nat (length (p2p_with_merchant rs))
                @ '' P2P transactions have non-null merchant_category'']
        else [])
     @ (if p2p_without_receiver rs \<noteq> []
        then [''Rule A violated: '' @ str_nat (length (p2p_without_receiver rs))
                @ '' P2P transactions have null receiver_age_group'']
        else [])
     @ (if non_p2p_with_receiver rs \<noteq> []
        then [''Rule B violated: '' @ str_nat (length (non_p2p_with_receiver rs))
                @ '' non-P2P transactions have non-null receiver_age_group'']
        else [])
     @ (if non_p2p_without_merchant rs \<noteq> []
        then [''Rule B violated: '' @ str_nat (length (non_p2p_without_merchant rs))
                @ '' non-P2P transactions have null merchant_category'']
        else [])"
  unfolding validate_data_table msg_p2p_with_merchant_def msg_p2p_without_receiver_def
    msg_non_p2p_with_receiver_def msg_non_p2p_without_merchant_def
  by simp

text \<open>
  Three rows break the first rule and one breaks the third: two messages, with the
  counts 3 and 1.
\<close>

theorem validate_data_bounded_example:
  "validate_data (table [p2p_row_with_merchant, p2m_row_with_receiver, p2p_row_with_merchant,
                         blank_row, p2p_row_with_merchant]) =
     Inr [''Rule A violated: 3 P2P transactions have non-null merchant_category'',
          ''Rule B violated: 1 non-P2P transactions have non-null receiver_age_group'']"
proof -
  let ?rs = "[p2p_row_with_merchant, p2m_row_with_receiver, p2p_row_with_merchant,
              blank_row, p2p_row_with_merchant]"
  have a: "p2p_with_merchant ?rs =
      [p2p_row_with_merchant, p2p_row_with_merchant, p2p_row_with_merchant]"
    by (simp add: p2p_with_merchant_def p2p_row_with_merchant_def p2m_row_with_receiver_def
        blank_row_def)
  have b: "p2p_without_receiver ?rs = []"
    by (simp add: p2p_without_receiver_def p2p_row_with_merchant_def p2m_row_with_receiver_def
        blank_row_def)
  have c: "non_p2p_with_receiver ?rs = [p2m_row_with_receiver]"
    by (simp add: non_p2p_with_receiver_def non_p2p_types_def p2p_row_with_merchant_def
        p2m_row_with_receiver_def blank_row_def)
  have d: "non_p2p_without_merchant ?rs = []"
    by (simp add: non_p2p_without_merchant_def non_p2p_types_def p2p_row_with_merchant_def
        p2m_row_with_receiver_def blank_row_def)
  from validate_data_bounded[of ?rs] show ?thesis
    unfolding a b c d by (simp add: digit_char_def)
qed

end
